theory Spec2Isabelle
  imports Main "HOL-Library.Sublist" "HOL-Library.Word"
begin

section \<open>Python values\<close>

text \<open>
  A Python \<open>str\<close> is a sequence of Unicode code points, a \<open>bytes\<close> object a sequence
  of bytes. String literals of the source are written with \<open>lit\<close>.
\<close>

type_synonym str = "nat list"

type_synonym bytes = "8 word list"

definition lit :: "string \<Rightarrow> str" where
  "lit s = map of_char s"

text \<open>The exceptions that the charm raises, catches or lets through.\<close>

datatype exn =
    BinasciiError
  | TypeError
  | ValueError
  | UnicodeDecodeError
  | UnicodeEncodeError
  | KeyError
  | RuntimeError
  | NotImplementedError

subsection \<open>\<open>bytes.decode("utf-8")\<close> and \<open>str.encode()\<close>\<close>

definition cont :: "nat \<Rightarrow> bool" where
  "cont b = (128 \<le> b \<and> b < 192)"

text \<open>
  Strict UTF-8 as Python decodes it: shortest form only, no surrogates, nothing above
  U+10FFFF. \<open>None\<close> stands for \<open>UnicodeDecodeError\<close>.
\<close>

fun utf8_dec :: "nat list \<Rightarrow> nat list option" where
  "utf8_dec [] = Some []"
| "utf8_dec (b0 # bs) =
     (if b0 < 128 then map_option ((#) b0) (utf8_dec bs)
      else if 194 \<le> b0 \<and> b0 < 224 then
        (case bs of
           b1 # r \<Rightarrow>
             if cont b1
             then map_option ((#) ((b0 - 192) * 64 + (b1 - 128))) (utf8_dec r)
             else None
         | _ \<Rightarrow> None)
      else if 224 \<le> b0 \<and> b0 < 240 then
        (case bs of
           b1 # b2 # r \<Rightarrow>
             if cont b1 \<and> cont b2
                \<and> (if b0 = 224 then 160 \<le> b1 else True)
                \<and> (if b0 = 237 then b1 < 160 else True)
             then map_option
                    ((#) ((b0 - 224) * 4096 + (b1 - 128) * 64 + (b2 - 128)))
                    (utf8_dec r)
             else None
         | _ \<Rightarrow> None)
      else if 240 \<le> b0 \<and> b0 < 245 then
        (case bs of
           b1 # b2 # b3 # r \<Rightarrow>
             if cont b1 \<and> cont b2 \<and> cont b3
                \<and> (if b0 = 240 then 144 \<le> b1 else True)
                \<and> (if b0 = 244 then b1 < 144 else True)
             then map_option
                    ((#) ((b0 - 240) * 262144 + (b1 - 128) * 4096
                          + (b2 - 128) * 64 + (b3 - 128)))
                    (utf8_dec r)
             else None
         | _ \<Rightarrow> None)
      else None)"

definition decode_utf8 :: "bytes \<Rightarrow> exn + str" where
  "decode_utf8 b =
     (case utf8_dec (map unat b) of
        None \<Rightarrow> Inl UnicodeDecodeError
      | Some s \<Rightarrow> Inr s)"

text \<open>
  \<open>str.encode()\<close>: a surrogate (or a value that is no code point) raises
  \<open>UnicodeEncodeError\<close>.
\<close>

definition utf8_enc1 :: "nat \<Rightarrow> nat list option" where
  "utf8_enc1 c =
     (if c < 128 then Some [c]
      else if c < 2048 then Some [192 + c div 64, 128 + c mod 64]
      else if 55296 \<le> c \<and> c < 57344 then None
      else if c < 65536 then
        Some [224 + c div 4096, 128 + (c div 64) mod 64, 128 + c mod 64]
      else if c < 1114112 then
        Some [240 + c div 262144, 128 + (c div 4096) mod 64,
              128 + (c div 64) mod 64, 128 + c mod 64]
      else None)"

fun utf8_enc :: "nat list \<Rightarrow> nat list option" where
  "utf8_enc [] = Some []"
| "utf8_enc (c # cs) =
     (case utf8_enc1 c of
        None \<Rightarrow> None
      | Some bs \<Rightarrow> map_option ((@) bs) (utf8_enc cs))"

definition encode_utf8 :: "str \<Rightarrow> exn + bytes" where
  "encode_utf8 s =
     (case utf8_enc s of
        None \<Rightarrow> Inl UnicodeEncodeError
      | Some bs \<Rightarrow> Inr (map of_nat bs))"

subsection \<open>\<open>str.strip()\<close>\<close>

text \<open>The code points for which Python's \<open>str.isspace\<close> holds.\<close>

definition isspace :: "nat \<Rightarrow> bool" where
  "isspace c =
     ((9 \<le> c \<and> c \<le> 13) \<or> (28 \<le> c \<and> c \<le> 32) \<or> c = 133 \<or> c = 160
      \<or> c = 5760 \<or> (8192 \<le> c \<and> c \<le> 8202) \<or> c = 8232 \<or> c = 8233
      \<or> c = 8239 \<or> c = 8287 \<or> c = 12288)"

definition strip :: "str \<Rightarrow> str" where
  "strip s = rev (dropWhile isspace (rev (dropWhile isspace s)))"

subsection \<open>\<open>str(n)\<close> for a length\<close>

function str_of_nat :: "nat \<Rightarrow> str" where
  "str_of_nat n =
     (if n < 10 then [48 + n] else str_of_nat (n div 10) @ [48 + n mod 10])"
  by pat_completeness auto
termination
  by (relation "measure id") auto

declare str_of_nat.simps [simp del]

subsection \<open>\<open>base64.b64decode\<close>\<close>

text \<open>
  The value of a character of the standard alphabet (\<open>A-Z a-z 0-9 + /\<close>).
\<close>

definition b64_value :: "nat \<Rightarrow> nat option" where
  "b64_value c =
     (if 65 \<le> c \<and> c \<le> 90 then Some (c - 65)
      else if 97 \<le> c \<and> c \<le> 122 then Some (c - 71)
      else if 48 \<le> c \<and> c \<le> 57 then Some (c + 4)
      else if c = 43 then Some 62
      else if c = 47 then Some 63
      else None)"

text \<open>
  \<open>binascii.a2b_base64\<close> in its default, lenient mode, as CPython 3.11 and later
  run it (earlier versions agree on padded input): characters outside the alphabet
  are skipped, a completed pad sequence ends the input, and an incomplete last
  quad is \<open>binascii.Error\<close>. The arguments after the input are \<open>quad_pos\<close>,
  \<open>leftchar\<close>, \<open>pads\<close> and the bytes written so far.
\<close>

fun a2b_base64 :: "nat list \<Rightarrow> nat \<Rightarrow> nat \<Rightarrow> nat \<Rightarrow> nat list \<Rightarrow> exn + nat list" where
  "a2b_base64 [] quad_pos leftchar pads out =
     (if quad_pos \<noteq> 0 then Inl BinasciiError else Inr out)"
| "a2b_base64 (c # cs) quad_pos leftchar pads out =
     (if c = 61 then
        (if 2 \<le> quad_pos \<and> 4 \<le> quad_pos + (pads + 1) then Inr out
         else a2b_base64 cs quad_pos leftchar
                (if 2 \<le> quad_pos then pads + 1 else pads) out)
      else
        (case b64_value c of
           None \<Rightarrow> a2b_base64 cs quad_pos leftchar pads out
         | Some v \<Rightarrow>
             if quad_pos = 0 then a2b_base64 cs 1 v 0 out
             else if quad_pos = 1 then
               a2b_base64 cs 2 (v mod 16) 0 (out @ [leftchar * 4 + v div 16])
             else if quad_pos = 2 then
               a2b_base64 cs 3 (v mod 4) 0 (out @ [leftchar * 16 + v div 4])
             else a2b_base64 cs 0 0 0 (out @ [leftchar * 64 + v])))"

text \<open>
  \<open>base64.b64decode(s)\<close> for a \<open>str\<close>: the text is first encoded as ASCII, and a
  character outside ASCII raises a plain \<open>ValueError\<close>.
\<close>

definition py_b64decode :: "str \<Rightarrow> exn + bytes" where
  "py_b64decode s =
     (if list_ex (\<lambda>c. 128 \<le> c) s then Inl ValueError
      else (case a2b_base64 s 0 0 0 [] of
              Inl e \<Rightarrow> Inl e
            | Inr out \<Rightarrow> Inr (map of_nat out)))"

section \<open>The helpers module\<close>

text \<open>The two delimiters of a PEM certificate block.\<close>

definition BEGIN_CERTIFICATE :: str where
  "BEGIN_CERTIFICATE = lit ''-----BEGIN CERTIFICATE-----''"

definition END_CERTIFICATE :: str where
  "END_CERTIFICATE = lit ''-----END CERTIFICATE-----''"

text \<open>
  The first occurrence of \<open>m\<close> in a text: what stands before it and what follows it.
\<close>

fun find_marker :: "'a list \<Rightarrow> 'a list \<Rightarrow> ('a list \<times> 'a list) option" where
  "find_marker m [] = (if m = [] then Some ([], []) else None)"
| "find_marker m (x # xs) =
     (if prefix m (x # xs) then Some ([], drop (length m) (x # xs))
      else (case find_marker m xs of
              None \<Rightarrow> None
            | Some (pre, post) \<Rightarrow> Some (x # pre, post)))"

lemma find_marker_Some:
  "find_marker m xs = Some (pre, post) \<Longrightarrow> xs = pre @ m @ post"
proof (induction xs arbitrary: pre)
  case Nil
  then show ?case by (simp split: if_splits)
next
  case (Cons x xs)
  show ?case
  proof (cases "prefix m (x # xs)")
    case True
    with Cons.prems have "pre = []" "post = drop (length m) (x # xs)"
      by simp_all
    moreover from True obtain r where "x # xs = m @ r"
      by (auto simp: prefix_def)
    ultimately show ?thesis by simp
  next
    case False
    with Cons.prems obtain pre' where
      "find_marker m xs = Some (pre', post)" "pre = x # pre'"
      by (auto split: option.splits)
    with Cons.IH show ?thesis by simp
  qed
qed

text \<open>
  Modelled from the spec: \<open>helpers.parse_ca_chain\<close> is not among the sources. The
  spec (4.1) has it split a text blob on the \<open>BEGIN CERTIFICATE\<close> /
  \<open>END CERTIFICATE\<close> delimiters and return each block, delimiters included, in the
  original order; a blob with no delimiters gives the empty sequence.
\<close>

function parse_ca_chain :: "str \<Rightarrow> str list" where
  "parse_ca_chain blob =
     (case find_marker BEGIN_CERTIFICATE blob of
        None \<Rightarrow> []
      | Some (pre, rest) \<Rightarrow>
          (case find_marker END_CERTIFICATE rest of
             None \<Rightarrow> []
           | Some (body, rest') \<Rightarrow>
               (BEGIN_CERTIFICATE @ body @ END_CERTIFICATE) # parse_ca_chain rest'))"
  by pat_completeness auto
termination
proof (relation "measure length")
  show "wf (measure length)" by simp
next
  fix blob :: str and x2 pre rest x2a body rest'
  assume "find_marker BEGIN_CERTIFICATE blob = Some x2" "(pre, rest) = x2"
    "find_marker END_CERTIFICATE rest = Some x2a" "(body, rest') = x2a"
  then have "blob = pre @ BEGIN_CERTIFICATE @ rest"
    "rest = body @ END_CERTIFICATE @ rest'"
    by (auto dest: find_marker_Some)
  then have "length rest' < length blob"
    by (simp add: BEGIN_CERTIFICATE_def lit_def)
  then show "(rest', blob) \<in> measure length" by simp
qed

declare parse_ca_chain.simps [simp del]

text \<open>
  The blobs that the claim about the chain parser speaks of: \<open>occurs m xs\<close> says that
  the marker \<open>m\<close> starts somewhere in \<open>xs\<close>; \<open>chain_blob segs trailer\<close> is the text made of
  one PEM block per element of \<open>segs\<close>, each after its separator text, and then the
  trailer; it is well formed when no begin marker starts in a separator or in the
  trailer and no end marker starts in a body.
\<close>

fun occurs :: "'a list \<Rightarrow> 'a list \<Rightarrow> bool" where
  "occurs m [] = (m = [])"
| "occurs m (x # xs) = (prefix m (x # xs) \<or> occurs m xs)"

definition pem_block :: "str \<Rightarrow> str" where
  "pem_block body = BEGIN_CERTIFICATE @ body @ END_CERTIFICATE"

fun chain_blob :: "(str \<times> str) list \<Rightarrow> str \<Rightarrow> str" where
  "chain_blob [] trailer = trailer"
| "chain_blob ((sep, body) # segs) trailer =
     sep @ BEGIN_CERTIFICATE @ body @ END_CERTIFICATE @ chain_blob segs trailer"

definition well_formed_chain :: "(str \<times> str) list \<Rightarrow> str \<Rightarrow> bool" where
  "well_formed_chain segs trailer =
     (list_all (\<lambda>(sep, body).
          \<not> occurs BEGIN_CERTIFICATE (sep @ butlast BEGIN_CERTIFICATE)
        \<and> \<not> occurs END_CERTIFICATE (body @ butlast END_CERTIFICATE)) segs
      \<and> \<not> occurs BEGIN_CERTIFICATE trailer)"

section \<open>The relation data\<close>

text \<open>
  The data model of the spec (section 3): a relation (session) has an identifier and
  its requester units; a requester unit has the CSRs it submitted, each one outstanding
  (\<open>None\<close>) or answered by a certificate, a CA certificate and a chain.
\<close>

record issued =
  issued_certificate :: str
  issued_ca :: str
  issued_chain :: "str list"

record csr_entry =
  request_csr :: str
  request_answer :: "issued option"

record requester =
  requester_unit :: str
  requests :: "csr_entry list"

record relation =
  rel_id :: int
  units :: "requester list"

text \<open>\<open>self.model.relations\<close>: the relations of every declared relation name.\<close>

type_synonym relation_mapping = "str \<Rightarrow> relation list option"

text \<open>An element of the list of outstanding requests: \<open>{unit, unit_csrs}\<close>.\<close>

record unit_csr_mapping =
  unit_name :: str
  unit_csrs :: "str list"

text \<open>The keyword arguments of \<open>set_relation_certificate\<close>.\<close>

record certificate_args =
  csr_arg :: str
  certificate_arg :: str
  ca_arg :: str
  chain_arg :: "str list"
  relation_id_arg :: int

section \<open>What the charm imports\<close>

text \<open>
  The charm calls \<open>base64.b64decode\<close>, the two validators of \<open>helpers\<close> (which parse with
  the cryptography library) and three methods of \<open>TLSCertificatesProvidesV2\<close>. None of
  them is among the sources, so the charm is modelled over any implementation of
  them. A validator returns a truth value; a decoder and a library method may raise.
\<close>

record env =
  b64decode :: "str \<Rightarrow> exn + bytes"
  certificate_is_valid :: "bytes \<Rightarrow> bool"
  certificate_signing_request_is_valid :: "bytes \<Rightarrow> bool"
  get_requirer_csrs_with_no_certs :: "relation_mapping \<Rightarrow> unit_csr_mapping list"
  get_requirer_csrs :: "relation_mapping \<Rightarrow> int \<Rightarrow> exn + requester list"
  set_relation_certificate :: "relation_mapping \<Rightarrow> certificate_args \<Rightarrow> exn + relation_mapping"

section \<open>The charm\<close>

datatype status = UnknownStatus | ActiveStatus str

datatype event_source =
    Install
  | Certificate_creation_request
  | Get_outstanding_certificate_requests_action
  | Get_certificate_request_action
  | Provide_certificate_action

datatype handler =
    On_install
  | On_certificate_creation_request
  | On_get_outstanding_certificate_requests_action
  | On_get_certificate_request_action
  | On_provide_certificate_action

text \<open>A call of a method of the TLS library, with its arguments.\<close>

datatype lib_call =
    GetRequirerCsrsWithNoCerts
  | GetRequirerCsrs int
  | SetRelationCertificate certificate_args

text \<open>
  What a handler can read and change: the unit's leadership and status, the relations of
  the model, the observers registered with the framework, and the calls made to the
  TLS library so far (kept so that a query leaves a trace as a mutation does).
\<close>

record charm_state =
  is_leader :: bool
  relations :: relation_mapping
  unit_status :: status
  observers :: "(event_source \<times> handler) list"
  lib_calls :: "lib_call list"

text \<open>
  How a handler ends: \<open>event.fail(message)\<close>, \<open>event.set_results({"result": r})\<close>, or
  an exception that leaves the handler.
\<close>

datatype 'r outcome = Fail str | SetResults 'r | Raised exn

text \<open>
  The parameters of the \<open>provide-certificate\<close> action. Juju checks an action's
  parameters against the declared schema before the handler runs, so every key is
  present and the four texts are \<open>str\<close>.
\<close>

record action_params =
  relation_id_param :: int
  certificate_param :: str
  ca_certificate_param :: str
  csr_param :: str
  ca_chain_param :: str

subsection \<open>\<open>__init__\<close>\<close>

definition charm_init :: "charm_state \<Rightarrow> charm_state \<times> exn option" where
  "charm_init st =
     (if \<not> is_leader st then (st, Some NotImplementedError)
      else
        (st\<lparr>observers := observers st @
             [(Install, On_install),
              (Certificate_creation_request, On_certificate_creation_request),
              (Get_outstanding_certificate_requests_action,
                 On_get_outstanding_certificate_requests_action),
              (Get_certificate_request_action, On_get_certificate_request_action),
              (Provide_certificate_action, On_provide_certificate_action)]\<rparr>,
         None))"

subsection \<open>\<open>_on_install\<close>\<close>

definition on_install :: "charm_state \<Rightarrow> charm_state" where
  "on_install st =
     st\<lparr>unit_status := ActiveStatus (lit ''Ready to provide certificates.'')\<rparr>"

subsection \<open>\<open>_relation_created\<close>\<close>

text \<open>
  \<open>self.model.relations[name]\<close> raises \<open>KeyError\<close> for a name the charm does not
  declare; \<open>Mapping.get\<close> catches it and returns the default.
\<close>

definition relations_getitem :: "relation_mapping \<Rightarrow> str \<Rightarrow> exn + relation list" where
  "relations_getitem m name =
     (case m name of None \<Rightarrow> Inl KeyError | Some rs \<Rightarrow> Inr rs)"

definition relations_get ::
  "relation_mapping \<Rightarrow> str \<Rightarrow> relation list \<Rightarrow> exn + relation list" where
  "relations_get m name dflt =
     (case relations_getitem m name of
        Inl e \<Rightarrow> (if e = KeyError then Inr dflt else Inl e)
      | Inr rs \<Rightarrow> Inr rs)"

definition relation_created :: "charm_state \<Rightarrow> str \<Rightarrow> exn + bool" where
  "relation_created st relation_name =
     (case relations_get (relations st) relation_name [] of
        Inl e \<Rightarrow> (if e = KeyError then Inr False else Inl e)
      | Inr rs \<Rightarrow> (if rs \<noteq> [] then Inr True else Inr False))"

subsection \<open>\<open>_get_outstanding_requests\<close> and \<open>_on_certificate_creation_request\<close>\<close>

text \<open>The loop \<open>for element in ...: certificate_request_list += element["unit_csrs"]\<close>.\<close>

fun extend_with_unit_csrs :: "str list \<Rightarrow> unit_csr_mapping list \<Rightarrow> str list" where
  "extend_with_unit_csrs certificate_request_list [] = certificate_request_list"
| "extend_with_unit_csrs certificate_request_list (element # elements) =
     extend_with_unit_csrs (certificate_request_list @ unit_csrs element) elements"

definition get_outstanding_requests :: "env \<Rightarrow> charm_state \<Rightarrow> charm_state \<times> str list" where
  "get_outstanding_requests env st =
     (st\<lparr>lib_calls := lib_calls st @ [GetRequirerCsrsWithNoCerts]\<rparr>,
      extend_with_unit_csrs [] (get_requirer_csrs_with_no_certs env (relations st)))"

definition on_certificate_creation_request :: "env \<Rightarrow> charm_state \<Rightarrow> charm_state" where
  "on_certificate_creation_request env st =
     (case get_outstanding_requests env st of
        (st1, outstanding_requests) \<Rightarrow>
          let outstanding_requests_num = length outstanding_requests in
          st1\<lparr>unit_status :=
                ActiveStatus
                  (str_of_nat outstanding_requests_num
                   @ lit '' outstanding requests, use juju actions to provide certificates'')\<rparr>)"

subsection \<open>\<open>_on_get_outstanding_certificate_requests_action\<close>\<close>

definition NO_RELATION_MESSAGE :: str where
  "NO_RELATION_MESSAGE = lit ''No certificates relation has been created yet.''"

definition on_get_outstanding_certificate_requests_action ::
  "env \<Rightarrow> charm_state \<Rightarrow> charm_state \<times> unit_csr_mapping list outcome" where
  "on_get_outstanding_certificate_requests_action env st =
     (case relation_created st (lit ''certificates'') of
        Inl e \<Rightarrow> (st, Raised e)
      | Inr created \<Rightarrow>
          if \<not> created then (st, Fail NO_RELATION_MESSAGE)
          else
            (st\<lparr>lib_calls := lib_calls st @ [GetRequirerCsrsWithNoCerts]\<rparr>,
             SetResults (get_requirer_csrs_with_no_certs env (relations st))))"

subsection \<open>\<open>_on_get_certificate_request_action\<close>\<close>

definition on_get_certificate_request_action ::
  "env \<Rightarrow> charm_state \<Rightarrow> int \<Rightarrow> charm_state \<times> requester list outcome" where
  "on_get_certificate_request_action env st relation_id =
     (case relation_created st (lit ''certificates'') of
        Inl e \<Rightarrow> (st, Raised e)
      | Inr created \<Rightarrow>
          if \<not> created then (st, Fail NO_RELATION_MESSAGE)
          else
            (let st1 = st\<lparr>lib_calls := lib_calls st @ [GetRequirerCsrs relation_id]\<rparr>
             in case get_requirer_csrs env (relations st) relation_id of
                  Inl e \<Rightarrow> (st1, Raised e)
                | Inr result \<Rightarrow> (st1, SetResults result)))"

subsection \<open>\<open>_action_certificates_are_valid\<close>\<close>

text \<open>The clause \<open>except (binascii.Error, TypeError)\<close>: the function returns \<open>False\<close>.\<close>

definition decode_failed :: "exn \<Rightarrow> exn + bool" where
  "decode_failed e = (if e = BinasciiError \<or> e = TypeError then Inr False else Inl e)"

text \<open>The loop over the blocks of the chain; \<open>ca.encode()\<close> may raise.\<close>

fun chain_is_valid :: "env \<Rightarrow> str list \<Rightarrow> exn + bool" where
  "chain_is_valid env [] = Inr True"
| "chain_is_valid env (ca # ca_chain_list) =
     (case encode_utf8 ca of
        Inl e \<Rightarrow> Inl e
      | Inr ca_bytes \<Rightarrow>
          if \<not> certificate_is_valid env ca_bytes then Inr False
          else chain_is_valid env ca_chain_list)"

definition action_certificates_are_valid ::
  "env \<Rightarrow> str \<Rightarrow> str \<Rightarrow> str \<Rightarrow> str \<Rightarrow> exn + bool" where
  "action_certificates_are_valid env certificate ca_certificate
     certificate_signing_request ca_chain =
     (case b64decode env certificate of
        Inl e \<Rightarrow> decode_failed e
      | Inr certificate_bytes \<Rightarrow>
     (case b64decode env ca_certificate of
        Inl e \<Rightarrow> decode_failed e
      | Inr ca_certificate_bytes \<Rightarrow>
     (case b64decode env certificate_signing_request of
        Inl e \<Rightarrow> decode_failed e
      | Inr csr_bytes \<Rightarrow>
     (case b64decode env ca_chain of
        Inl e \<Rightarrow> decode_failed e
      | Inr ca_chain_bytes \<Rightarrow>
          if \<not> certificate_is_valid env certificate_bytes then Inr False
          else if \<not> certificate_is_valid env ca_certificate_bytes then Inr False
          else if \<not> certificate_signing_request_is_valid env csr_bytes then Inr False
          else
            (case decode_utf8 ca_chain_bytes of
               Inl e \<Rightarrow> Inl e
             | Inr ca_chain_text \<Rightarrow> chain_is_valid env (parse_ca_chain ca_chain_text))))))"

subsection \<open>\<open>_on_provide_certificate_action\<close>\<close>

text \<open>The expression \<open>base64.b64decode(x).decode("utf-8")\<close>.\<close>

definition b64decode_text :: "env \<Rightarrow> str \<Rightarrow> exn + str" where
  "b64decode_text env x =
     (case b64decode env x of Inl e \<Rightarrow> Inl e | Inr b \<Rightarrow> decode_utf8 b)"

text \<open>
  The clause \<open>except RuntimeError\<close> also catches the subclasses of \<open>RuntimeError\<close>, of
  which \<open>NotImplementedError\<close> is one.
\<close>

definition is_RuntimeError :: "exn \<Rightarrow> bool" where
  "is_RuntimeError e = (e = RuntimeError \<or> e = NotImplementedError)"

definition INVALID_INPUT_MESSAGE :: str where
  "INVALID_INPUT_MESSAGE = lit ''Action input is not valid.''"

definition RELATION_NOT_FOUND_MESSAGE :: str where
  "RELATION_NOT_FOUND_MESSAGE = lit ''Relation does not exist with the provided id.''"

definition SUCCESS_MESSAGE :: str where
  "SUCCESS_MESSAGE = lit ''Certificates successfully provided.''"

definition on_provide_certificate_action ::
  "env \<Rightarrow> charm_state \<Rightarrow> action_params \<Rightarrow> charm_state \<times> str outcome" where
  "on_provide_certificate_action env st params =
     (case relation_created st (lit ''certificates'') of
        Inl e \<Rightarrow> (st, Raised e)
      | Inr created \<Rightarrow>
          if \<not> created then (st, Fail NO_RELATION_MESSAGE)
          else
     (case action_certificates_are_valid env (certificate_param params)
             (ca_certificate_param params) (csr_param params) (ca_chain_param params) of
        Inl e \<Rightarrow> (st, Raised e)
      | Inr valid \<Rightarrow>
          if \<not> valid then (st, Fail INVALID_INPUT_MESSAGE)
          else
     (case b64decode_text env (ca_chain_param params) of
        Inl e \<Rightarrow> (st, Raised e)
      | Inr ca_chain_text \<Rightarrow>
     (case b64decode_text env (csr_param params) of
        Inl e \<Rightarrow> (st, Raised e)
      | Inr csr_text \<Rightarrow>
     (case b64decode_text env (certificate_param params) of
        Inl e \<Rightarrow> (st, Raised e)
      | Inr certificate_text \<Rightarrow>
     (case b64decode_text env (ca_certificate_param params) of
        Inl e \<Rightarrow> (st, Raised e)
      | Inr ca_cert_text \<Rightarrow>
          (let args = \<lparr>csr_arg = strip csr_text,
                       certificate_arg = strip certificate_text,
                       ca_arg = strip ca_cert_text,
                       chain_arg = parse_ca_chain ca_chain_text,
                       relation_id_arg = relation_id_param params\<rparr>;
               st1 = st\<lparr>lib_calls := lib_calls st @ [SetRelationCertificate args]\<rparr>
           in case set_relation_certificate env (relations st) args of
                Inl e \<Rightarrow>
                  if is_RuntimeError e then (st1, Fail RELATION_NOT_FOUND_MESSAGE)
                  else (st1, Raised e)
              | Inr relations' \<Rightarrow>
                  (st1\<lparr>relations := relations'\<rparr>, SetResults SUCCESS_MESSAGE))))))))"

section \<open>The request ledger of the spec\<close>

text \<open>
  Modelled from the spec: the sessions of the ledger. The TLS library
  (\<open>TLSCertificatesProvidesV2\<close>) is not among the sources; the ledger of the spec
  (4.2) lives in the relation data, under the relation name \<open>certificates\<close>.
\<close>

definition certificates_relations :: "relation_mapping \<Rightarrow> relation list" where
  "certificates_relations m =
     (case m (lit ''certificates'') of None \<Rightarrow> [] | Some rs \<Rightarrow> rs)"

definition find_relation :: "relation_mapping \<Rightarrow> int \<Rightarrow> relation option" where
  "find_relation m relation_id =
     find (\<lambda>r. rel_id r = relation_id) (certificates_relations m)"

text \<open>
  Modelled from the spec: \<open>listOutstanding\<close> (the library's
  \<open>get_requirer_csrs_with_no_certs\<close>, not among the sources) returns, grouped by
  requester unit, every CSR that is outstanding, units in join order and CSRs in
  submission order. A unit with no outstanding CSR has no element: after the only
  CSR is answered the spec (8) expects the empty list.
\<close>

definition outstanding_of :: "requester \<Rightarrow> unit_csr_mapping" where
  "outstanding_of u =
     \<lparr>unit_name = requester_unit u,
      unit_csrs = map request_csr (filter (\<lambda>e. request_answer e = None) (requests u))\<rparr>"

definition listOutstanding :: "relation_mapping \<Rightarrow> unit_csr_mapping list" where
  "listOutstanding m =
     filter (\<lambda>e. unit_csrs e \<noteq> [])
       (concat (map (\<lambda>r. map outstanding_of (units r)) (certificates_relations m)))"

text \<open>
  Modelled from the spec: \<open>listByRequester\<close> (the library's \<open>get_requirer_csrs\<close>, not
  among the sources) returns every CSR of the given relation, outstanding or not,
  paired with its certificate if it has one, and fails with the not-found error when
  the relation id is that of no session. The handler of the issuance action catches
  the library's not-found error as a \<open>RuntimeError\<close>.
\<close>

definition listByRequester :: "relation_mapping \<Rightarrow> int \<Rightarrow> exn + requester list" where
  "listByRequester m relation_id =
     (case find_relation m relation_id of
        None \<Rightarrow> Inl RuntimeError
      | Some r \<Rightarrow> Inr (units r))"

text \<open>
  Modelled from the spec: \<open>attachCertificate\<close> (the library's
  \<open>set_relation_certificate\<close>, not among the sources) fails with the not-found error
  when no session has the relation id, whatever the CSR; otherwise it answers the
  outstanding entries of that relation whose CSR text is the given one. The spec does
  not say what happens when no entry matches; here the ledger is then left as it is.
\<close>

definition answer_entry :: "certificate_args \<Rightarrow> csr_entry \<Rightarrow> csr_entry" where
  "answer_entry a e =
     (if request_csr e = csr_arg a \<and> request_answer e = None
      then e\<lparr>request_answer :=
               Some \<lparr>issued_certificate = certificate_arg a,
                     issued_ca = ca_arg a,
                     issued_chain = chain_arg a\<rparr>\<rparr>
      else e)"

definition answer_relation :: "certificate_args \<Rightarrow> relation \<Rightarrow> relation" where
  "answer_relation a r =
     (if rel_id r = relation_id_arg a
      then r\<lparr>units := map (\<lambda>u. u\<lparr>requests := map (answer_entry a) (requests u)\<rparr>) (units r)\<rparr>
      else r)"

definition attachCertificate ::
  "relation_mapping \<Rightarrow> certificate_args \<Rightarrow> exn + relation_mapping" where
  "attachCertificate m a =
     (case find_relation m (relation_id_arg a) of
        None \<Rightarrow> Inl RuntimeError
      | Some r \<Rightarrow>
          Inr (m(lit ''certificates'' \<mapsto> map (answer_relation a) (certificates_relations m))))"

section \<open>A concrete instance\<close>

text \<open>
  The instance used for the concrete cases: Python's decoder, the ledger of the spec,
  and, in place of the two validators (parsing X.509 is not modelled), a check of the
  PEM envelope alone: the bytes are text that, trimmed, starts and ends with the
  delimiters of the given label.
\<close>

definition has_pem_envelope :: "string \<Rightarrow> bytes \<Rightarrow> bool" where
  "has_pem_envelope label b =
     (case decode_utf8 b of
        Inl e \<Rightarrow> False
      | Inr t \<Rightarrow>
          prefix (lit (''-----BEGIN '' @ label @ ''-----'')) (strip t)
          \<and> suffix (lit (''-----END '' @ label @ ''-----'')) (strip t))"

definition example_env :: env where
  "example_env =
     \<lparr>b64decode = py_b64decode,
      certificate_is_valid = has_pem_envelope ''CERTIFICATE'',
      certificate_signing_request_is_valid = has_pem_envelope ''CERTIFICATE REQUEST'',
      get_requirer_csrs_with_no_certs = listOutstanding,
      get_requirer_csrs = listByRequester,
      set_relation_certificate = attachCertificate\<rparr>"

text \<open>A certificate and a CSR reduced to their envelope.\<close>

definition example_certificate :: str where
  "example_certificate =
     lit ''-----BEGIN CERTIFICATE-----\<newline>AA==\<newline>-----END CERTIFICATE-----''"

definition example_csr :: str where
  "example_csr =
     lit ''-----BEGIN CERTIFICATE REQUEST-----\<newline>AA==\<newline>-----END CERTIFICATE REQUEST-----''"

text \<open>
  Their base64 forms as an operator passes them: the certificate with a leading blank
  and a final newline, the CSR with a final newline, and a chain of two certificates,
  each followed by a newline.
\<close>

definition example_certificate_b64 :: str where
  "example_certificate_b64 =
     lit ''IC0tLS0tQkVHSU4gQ0VSVElGSUNBVEUtLS0tLQpBQT09Ci0tLS0tRU5EIENFUlRJRklDQVRFLS0tLS0K''"

definition example_csr_b64 :: str where
  "example_csr_b64 =
     lit ''LS0tLS1CRUdJTiBDRVJUSUZJQ0FURSBSRVFVRVNULS0tLS0KQUE9PQotLS0tLUVORCBDRVJUSUZJQ0FURSBSRVFVRVNULS0tLS0K''"

definition example_chain_b64 :: str where
  "example_chain_b64 =
     lit ''LS0tLS1CRUdJTiBDRVJUSUZJQ0FURS0tLS0tCkFBPT0KLS0tLS1FTkQgQ0VSVElGSUNBVEUtLS0tLQotLS0tLUJFR0lOIENFUlRJRklDQVRFLS0tLS0KQUE9PQotLS0tLUVORCBDRVJUSUZJQ0FURS0tLS0tCg==''"

definition example_params :: "int \<Rightarrow> action_params" where
  "example_params relation_id =
     \<lparr>relation_id_param = relation_id,
      certificate_param = example_certificate_b64,
      ca_certificate_param = example_certificate_b64,
      csr_param = example_csr_b64,
      ca_chain_param = example_chain_b64\<rparr>"

text \<open>
  A leader unit before any relation is created, and the same unit with relation 7, on
  which \<open>unit/0\<close> has submitted the example CSR and one more.
\<close>

definition no_relation_state :: charm_state where
  "no_relation_state =
     \<lparr>is_leader = True,
      relations = [lit ''certificates'' \<mapsto> []],
      unit_status = UnknownStatus,
      observers = [],
      lib_calls = []\<rparr>"

definition example_relation :: relation where
  "example_relation =
     \<lparr>rel_id = 7,
      units = [\<lparr>requester_unit = lit ''unit/0'',
                requests = [\<lparr>request_csr = example_csr, request_answer = None\<rparr>,
                            \<lparr>request_csr = lit ''csr-2'', request_answer = None\<rparr>]\<rparr>]\<rparr>"

definition example_state :: charm_state where
  "example_state = no_relation_state\<lparr>relations := [lit ''certificates'' \<mapsto> [example_relation]]\<rparr>"

text \<open>
  The same instance with a validator of certificates that also refuses an envelope
  with nothing between its delimiters, and a chain whose second block is such an
  envelope.
\<close>

definition strict_env :: env where
  "strict_env =
     example_env
       \<lparr>certificate_is_valid :=
          (\<lambda>b. has_pem_envelope ''CERTIFICATE'' b
             \<and> length BEGIN_CERTIFICATE + length END_CERTIFICATE < length b)\<rparr>"


text \<open>
  A CSR whose body is the letter e with an acute accent (U+00E9, two bytes in UTF-8),
  and its base64 form with a final newline.
\<close>

definition accented_csr :: str where
  "accented_csr =
     lit ''-----BEGIN CERTIFICATE REQUEST-----'' @ [10, 233, 10]
     @ lit ''-----END CERTIFICATE REQUEST-----''"

definition accented_csr_b64 :: str where
  "accented_csr_b64 =
     lit ''LS0tLS1CRUdJTiBDRVJUSUZJQ0FURSBSRVFVRVNULS0tLS0Kw6kKLS0tLS1FTkQgQ0VSVElGSUNBVEUgUkVRVUVTVC0tLS0tCg==''"

text \<open>
  Relation 7 of the example once the certificate for the example CSR has been provided.
\<close>

definition provided_relation :: relation where
  "provided_relation =
     \<lparr>rel_id = 7,
      units = [\<lparr>requester_unit = lit ''unit/0'',
                requests =
                  [\<lparr>request_csr = example_csr,
                    request_answer =
                      Some \<lparr>issued_certificate = example_certificate,
                            issued_ca = example_certificate,
                            issued_chain = [example_certificate, example_certificate]\<rparr>\<rparr>,
                   \<lparr>request_csr = lit ''csr-2'', request_answer = None\<rparr>]\<rparr>]\<rparr>"

section \<open>Facts about the Python values\<close>

lemma lit_Nil [simp]: "lit [] = []"
  by (simp add: lit_def)

lemma lit_Cons [simp]: "lit (c # s) = of_char c # lit s"
  by (simp add: lit_def)

text \<open>
  What \<open>strip\<close> returns is the text without a run of white space at each end, and it
  neither starts nor ends with white space.
\<close>

definition trimmed_of :: "str \<Rightarrow> str \<Rightarrow> bool" where
  "trimmed_of t s =
     (\<exists>l r. t = l @ s @ r \<and> list_all isspace l \<and> list_all isspace r
            \<and> (s = [] \<or> (\<not> isspace (hd s) \<and> \<not> isspace (last s))))"

lemma strip_trimmed: "trimmed_of t (strip t)"
proof -
  define u where "u = dropWhile isspace t"
  define v where "v = dropWhile isspace (rev u)"
  define l where "l = takeWhile isspace t"
  define w where "w = rev (takeWhile isspace (rev u))"
  have t: "t = l @ u"
    by (simp add: l_def u_def)
  have "takeWhile isspace (rev u) @ v = rev u"
    unfolding v_def by (rule takeWhile_dropWhile_id)
  then have "rev (takeWhile isspace (rev u) @ v) = rev (rev u)"
    by (rule arg_cong)
  then have u: "u = rev v @ w"
    by (simp add: w_def)
  have s: "strip t = rev v"
    by (simp add: strip_def u_def v_def)
  have l: "list_all isspace l"
    unfolding l_def list_all_iff by (meson set_takeWhileD)
  have "list_all isspace (takeWhile isspace (rev u))"
    unfolding list_all_iff by (meson set_takeWhileD)
  then have w: "list_all isspace w"
    by (simp add: w_def list_all_iff)
  have ends: "rev v = [] \<or> (\<not> isspace (hd (rev v)) \<and> \<not> isspace (last (rev v)))"
  proof (cases "v = []")
    case True
    then show ?thesis by simp
  next
    case False
    then have "\<not> isspace (hd v)"
      unfolding v_def by (rule hd_dropWhile)
    with False have last: "\<not> isspace (last (rev v))"
      by (simp add: last_rev)
    from False have "u \<noteq> []" and hd: "hd u = hd (rev v)"
      by (simp_all add: u hd_append)
    from \<open>u \<noteq> []\<close> have "\<not> isspace (hd u)"
      unfolding u_def by (rule hd_dropWhile)
    with hd last show ?thesis by simp
  qed
  have "t = l @ rev v @ w"
    using t u by simp
  with l w ends show ?thesis
    unfolding trimmed_of_def s by blast
qed

text \<open>\<open>str_of_nat\<close> writes the decimal numeral of its argument.\<close>

definition decimal_value :: "str \<Rightarrow> nat" where
  "decimal_value s = foldl (\<lambda>a c. 10 * a + (c - 48)) 0 s"

lemma decimal_value_str_of_nat: "decimal_value (str_of_nat n) = n"
proof (induction n rule: str_of_nat.induct)
  case (1 n)
  show ?case
  proof (cases "n < 10")
    case True
    then show ?thesis
      by (subst str_of_nat.simps) (simp add: decimal_value_def)
  next
    case False
    with "1" have "decimal_value (str_of_nat (n div 10)) = n div 10"
      by simp
    with False show ?thesis
      by (subst str_of_nat.simps) (simp add: decimal_value_def)
  qed
qed

text \<open>
  Decoding and encoding: what \<open>decode_utf8\<close> returns for some bytes is a text that
  \<open>encode_utf8\<close> turns into these bytes again.
\<close>

lemma utf8_enc1_two:
  assumes "2 \<le> x" "x < 32" "y < 64"
  shows "utf8_enc1 (x * 64 + y) = Some [192 + x, 128 + y]"
proof -
  have "128 \<le> x * 64 + y" "x * 64 + y < 2048"
    using assms by auto
  moreover have "(x * 64 + y) div 64 = x" "(x * 64 + y) mod 64 = y"
    using assms by auto
  ultimately show ?thesis
    by (simp add: utf8_enc1_def)
qed

lemma utf8_enc1_three:
  assumes "x < 16" "y < 64" "z < 64" "x = 0 \<longrightarrow> 32 \<le> y" "x = 13 \<longrightarrow> y < 32"
  shows "utf8_enc1 (x * 4096 + y * 64 + z) = Some [224 + x, 128 + y, 128 + z]"
proof -
  define c where "c = x * 4096 + y * 64 + z"
  define q where "q = x * 64 + y"
  have c: "c = q * 64 + z"
    unfolding c_def q_def by simp
  have low: "2048 \<le> c"
    using assms unfolding c_def by (cases "x = 0") auto
  have high: "c < 65536"
    using assms unfolding c_def by auto
  consider "x < 13" | "x = 13" | "13 < x"
    by linarith
  then have surrogate: "\<not> (55296 \<le> c \<and> c < 57344)"
    using assms unfolding c_def by cases auto
  have d1: "c div 64 = q" and m1: "c mod 64 = z"
    using assms(3) unfolding c by simp_all
  have "c div 4096 = c div 64 div 64"
    using div_mult2_eq [of c 64 64] by simp
  then have d2: "c div 4096 = x"
    using assms(2) unfolding d1 q_def by simp
  have m2: "(c div 64) mod 64 = y"
    using assms(2) unfolding d1 q_def by simp
  show ?thesis
    using low high surrogate d2 m1 m2
    unfolding c_def [symmetric] by (simp add: utf8_enc1_def)
qed

lemma utf8_enc1_four:
  assumes "x < 5" "y < 64" "z < 64" "w < 64" "x = 0 \<longrightarrow> 16 \<le> y" "x = 4 \<longrightarrow> y < 16"
  shows "utf8_enc1 (x * 262144 + y * 4096 + z * 64 + w) =
           Some [240 + x, 128 + y, 128 + z, 128 + w]"
proof -
  define c where "c = x * 262144 + y * 4096 + z * 64 + w"
  define q where "q = x * 64 + y"
  define r where "r = q * 64 + z"
  have c: "c = r * 64 + w"
    unfolding c_def r_def q_def by simp
  have low: "65536 \<le> c"
    using assms unfolding c_def by (cases "x = 0") auto
  have high: "c < 1114112"
    using assms unfolding c_def by (cases "x = 4") auto
  have d1: "c div 64 = r" and m1: "c mod 64 = w"
    using assms(4) unfolding c by simp_all
  have m2: "(c div 64) mod 64 = z"
    using assms(3) unfolding d1 r_def by simp
  have "c div 4096 = c div 64 div 64"
    using div_mult2_eq [of c 64 64] by simp
  then have d2: "c div 4096 = q"
    using assms(3) unfolding d1 r_def by simp
  have m3: "(c div 4096) mod 64 = y"
    using assms(2) unfolding d2 q_def by simp
  have "c div 262144 = c div 4096 div 64"
    using div_mult2_eq [of c 4096 64] by simp
  then have d3: "c div 262144 = x"
    using assms(2) unfolding d2 q_def by simp
  show ?thesis
    using low high d3 m3 m2 m1
    unfolding c_def [symmetric] by (simp add: utf8_enc1_def)
qed

lemma utf8_dec_enc:
  "utf8_dec bs = Some s \<Longrightarrow> utf8_enc s = Some bs"
proof (induction bs arbitrary: s rule: length_induct)
  case (1 bs)
  have IH: "utf8_enc s' = Some r" if "length r < length bs" "utf8_dec r = Some s'" for r s'
    using "1.IH" that by blast
  show ?case
  proof (cases bs)
    case Nil
    with "1.prems" show ?thesis by simp
  next
    case (Cons b0 bs')
    consider (one) "b0 < 128"
      | (two) "194 \<le> b0" "b0 < 224"
      | (three) "224 \<le> b0" "b0 < 240"
      | (four) "240 \<le> b0" "b0 < 245"
      | (none) "128 \<le> b0" "b0 < 194 \<or> 245 \<le> b0"
      by linarith
    then show ?thesis
    proof cases
      case one
      with "1.prems" Cons obtain s' where dec: "utf8_dec bs' = Some s'" and s: "s = b0 # s'"
        by auto
      from dec Cons have "utf8_enc s' = Some bs'"
        by (intro IH) simp_all
      moreover from one have "utf8_enc1 b0 = Some [b0]"
        by (simp add: utf8_enc1_def)
      ultimately show ?thesis
        unfolding s Cons by simp
    next
      case two
      with "1.prems" Cons obtain b1 r s' where bs': "bs' = b1 # r" and b1: "cont b1"
        and dec: "utf8_dec r = Some s'"
        and s: "s = ((b0 - 192) * 64 + (b1 - 128)) # s'"
        by (auto split: list.splits if_splits)
      from dec Cons bs' have "utf8_enc s' = Some r"
        by (intro IH) simp_all
      moreover have "utf8_enc1 ((b0 - 192) * 64 + (b1 - 128)) =
          Some [192 + (b0 - 192), 128 + (b1 - 128)]"
        using two b1 by (intro utf8_enc1_two) (auto simp: cont_def)
      moreover have "192 + (b0 - 192) = b0" "128 + (b1 - 128) = b1"
        using two b1 by (auto simp: cont_def)
      ultimately show ?thesis
        unfolding s Cons bs' by simp
    next
      case three
      with "1.prems" Cons obtain b1 b2 r s' where bs': "bs' = b1 # b2 # r"
        and b1: "cont b1" and b2: "cont b2"
        and lo: "b0 = 224 \<longrightarrow> 160 \<le> b1" and hi: "b0 = 237 \<longrightarrow> b1 < 160"
        and dec: "utf8_dec r = Some s'"
        and s: "s = ((b0 - 224) * 4096 + (b1 - 128) * 64 + (b2 - 128)) # s'"
        by (auto split: list.splits if_splits)
      from dec Cons bs' have "utf8_enc s' = Some r"
        by (intro IH) simp_all
      moreover have "utf8_enc1 ((b0 - 224) * 4096 + (b1 - 128) * 64 + (b2 - 128)) =
          Some [224 + (b0 - 224), 128 + (b1 - 128), 128 + (b2 - 128)]"
        using three b1 b2 lo hi by (intro utf8_enc1_three) (auto simp: cont_def)
      moreover have "224 + (b0 - 224) = b0" "128 + (b1 - 128) = b1" "128 + (b2 - 128) = b2"
        using three b1 b2 by (auto simp: cont_def)
      ultimately show ?thesis
        unfolding s Cons bs' by simp
    next
      case four
      with "1.prems" Cons obtain b1 b2 b3 r s' where bs': "bs' = b1 # b2 # b3 # r"
        and b1: "cont b1" and b2: "cont b2" and b3: "cont b3"
        and lo: "b0 = 240 \<longrightarrow> 144 \<le> b1" and hi: "b0 = 244 \<longrightarrow> b1 < 144"
        and dec: "utf8_dec r = Some s'"
        and s: "s = ((b0 - 240) * 262144 + (b1 - 128) * 4096 + (b2 - 128) * 64
                     + (b3 - 128)) # s'"
        by (auto split: list.splits if_splits)
      from dec Cons bs' have "utf8_enc s' = Some r"
        by (intro IH) simp_all
      moreover have "utf8_enc1 ((b0 - 240) * 262144 + (b1 - 128) * 4096 + (b2 - 128) * 64
                     + (b3 - 128)) =
          Some [240 + (b0 - 240), 128 + (b1 - 128), 128 + (b2 - 128), 128 + (b3 - 128)]"
        using four b1 b2 b3 lo hi by (intro utf8_enc1_four) (auto simp: cont_def)
      moreover have "240 + (b0 - 240) = b0" "128 + (b1 - 128) = b1" "128 + (b2 - 128) = b2"
        "128 + (b3 - 128) = b3"
        using four b1 b2 b3 by (auto simp: cont_def)
      ultimately show ?thesis
        unfolding s Cons bs' by simp
    next
      case none
      with "1.prems" Cons show ?thesis
        by auto
    qed
  qed
qed

lemma decode_utf8_encode:
  "decode_utf8 b = Inr s \<Longrightarrow> encode_utf8 s = Inr b"
  by (auto simp: decode_utf8_def encode_utf8_def dest!: utf8_dec_enc
      split: option.splits simp: map_idI)

lemma utf8_enc_Some:
  "(\<exists>bs. utf8_enc s = Some bs) \<longleftrightarrow> (\<forall>c\<in>set s. \<exists>b. utf8_enc1 c = Some b)"
  by (induction s) (auto split: option.splits)

lemma encode_utf8_subset:
  assumes "encode_utf8 t = Inr b" and "set s \<subseteq> set t"
  shows "\<exists>b'. encode_utf8 s = Inr b'"
proof -
  from assms(1) have "\<exists>bs. utf8_enc t = Some bs"
    by (auto simp: encode_utf8_def split: option.splits)
  then have "\<forall>c\<in>set t. \<exists>b. utf8_enc1 c = Some b"
    by (simp add: utf8_enc_Some)
  with assms(2) have "\<forall>c\<in>set s. \<exists>b. utf8_enc1 c = Some b"
    by blast
  then have "\<exists>bs. utf8_enc s = Some bs"
    by (simp add: utf8_enc_Some)
  then show ?thesis
    by (auto simp: encode_utf8_def)
qed

section \<open>Facts about the chain parser\<close>

lemma find_marker_absent:
  "\<not> occurs m xs \<Longrightarrow> find_marker m xs = None"
  by (induction xs) auto

lemma prefix_append_short:
  assumes "prefix m (xs @ ys)" and "length m \<le> length xs"
  shows "prefix m xs"
  using assms by (auto simp: prefix_append)

lemma find_marker_first:
  assumes "m \<noteq> []" and "\<not> occurs m (ys @ butlast m)"
  shows "find_marker m (ys @ m @ rest) = Some (ys, rest)"
  using assms(2)
proof (induction ys)
  case Nil
  from assms(1) obtain a m' where m: "m = a # m'"
    by (cases m) auto
  show ?case
    unfolding m by simp
next
  case (Cons y ys)
  from Cons.prems have no_prefix: "\<not> prefix m (y # ys @ butlast m)"
    and no_later: "\<not> occurs m (ys @ butlast m)"
    by simp_all
  have "\<not> prefix m (y # ys @ m @ rest)"
  proof
    assume "prefix m (y # ys @ m @ rest)"
    moreover have "y # ys @ m @ rest = (y # ys @ butlast m) @ ([last m] @ rest)"
      using assms(1) by simp
    ultimately have "prefix m ((y # ys @ butlast m) @ ([last m] @ rest))"
      by simp
    moreover have "length m \<le> length (y # ys @ butlast m)"
      by simp
    ultimately have "prefix m (y # ys @ butlast m)"
      by (rule prefix_append_short)
    with no_prefix show False ..
  qed
  moreover have "find_marker m (ys @ m @ rest) = Some (ys, rest)"
    using no_later by (rule Cons.IH)
  ultimately show ?case
    by simp
qed

lemma BEGIN_CERTIFICATE_nonempty: "BEGIN_CERTIFICATE \<noteq> []"
  by (simp add: BEGIN_CERTIFICATE_def)

lemma END_CERTIFICATE_nonempty: "END_CERTIFICATE \<noteq> []"
  by (simp add: END_CERTIFICATE_def)

lemma parse_ca_chain_no_begin:
  "\<not> occurs BEGIN_CERTIFICATE blob \<Longrightarrow> parse_ca_chain blob = []"
  by (subst parse_ca_chain.simps) (simp add: find_marker_absent)

lemma parse_ca_chain_block:
  assumes "\<not> occurs BEGIN_CERTIFICATE (sep @ butlast BEGIN_CERTIFICATE)"
    and "\<not> occurs END_CERTIFICATE (body @ butlast END_CERTIFICATE)"
  shows "parse_ca_chain (sep @ BEGIN_CERTIFICATE @ body @ END_CERTIFICATE @ rest) =
           pem_block body # parse_ca_chain rest"
proof -
  have "find_marker BEGIN_CERTIFICATE
          (sep @ BEGIN_CERTIFICATE @ (body @ END_CERTIFICATE @ rest)) =
        Some (sep, body @ END_CERTIFICATE @ rest)"
    using BEGIN_CERTIFICATE_nonempty assms(1) by (rule find_marker_first)
  moreover have "find_marker END_CERTIFICATE (body @ END_CERTIFICATE @ rest) =
        Some (body, rest)"
    using END_CERTIFICATE_nonempty assms(2) by (rule find_marker_first)
  ultimately show ?thesis
    by (subst parse_ca_chain.simps) (simp add: pem_block_def)
qed

lemma parse_ca_chain_blob:
  "well_formed_chain segs trailer \<Longrightarrow>
     parse_ca_chain (chain_blob segs trailer) = map (\<lambda>(sep, body). pem_block body) segs"
proof (induction segs)
  case Nil
  then show ?case
    by (simp add: well_formed_chain_def parse_ca_chain_no_begin)
next
  case (Cons seg segs)
  obtain sep body where seg: "seg = (sep, body)"
    by (cases seg)
  from Cons.prems have wf: "well_formed_chain segs trailer"
    and sep: "\<not> occurs BEGIN_CERTIFICATE (sep @ butlast BEGIN_CERTIFICATE)"
    and body: "\<not> occurs END_CERTIFICATE (body @ butlast END_CERTIFICATE)"
    unfolding seg by (simp_all add: well_formed_chain_def)
  show ?case
    unfolding seg using parse_ca_chain_block [OF sep body] Cons.IH [OF wf]
    by simp
qed

lemma parse_ca_chain_subset:
  "ca \<in> set (parse_ca_chain blob) \<Longrightarrow> set ca \<subseteq> set blob"
proof (induction blob arbitrary: ca rule: length_induct)
  case (1 blob)
  from "1.prems" have nonempty: "parse_ca_chain blob \<noteq> []"
    by auto
  then obtain pre rest where first: "find_marker BEGIN_CERTIFICATE blob = Some (pre, rest)"
    by (subst (asm) parse_ca_chain.simps) (auto split: option.splits)
  with nonempty obtain body rest' where
    second: "find_marker END_CERTIFICATE rest = Some (body, rest')"
    by (subst (asm) parse_ca_chain.simps) (auto split: option.splits)
  from first have blob: "blob = pre @ BEGIN_CERTIFICATE @ rest"
    by (rule find_marker_Some)
  from second have rest: "rest = body @ END_CERTIFICATE @ rest'"
    by (rule find_marker_Some)
  have "parse_ca_chain blob =
      (BEGIN_CERTIFICATE @ body @ END_CERTIFICATE) # parse_ca_chain rest'"
    using first second by (subst parse_ca_chain.simps) simp
  with "1.prems" consider "ca = BEGIN_CERTIFICATE @ body @ END_CERTIFICATE"
    | "ca \<in> set (parse_ca_chain rest')"
    by auto
  then show ?case
  proof cases
    case 1
    then show ?thesis
      unfolding blob rest by auto
  next
    case 2
    moreover have "length rest' < length blob"
      unfolding blob rest by (simp add: BEGIN_CERTIFICATE_def lit_def)
    ultimately have "set ca \<subseteq> set rest'"
      using "1.IH" by blast
    then show ?thesis
      unfolding blob rest by auto
  qed
qed

text \<open>
  The blocks of a chain that was decoded from UTF-8 are encoded again without error:
  the decoder gives no surrogate.
\<close>

lemma chain_blocks_encode:
  assumes "decode_utf8 b = Inr t" and "ca \<in> set (parse_ca_chain t)"
  shows "\<exists>cb. encode_utf8 ca = Inr cb"
proof -
  from assms(1) have "encode_utf8 t = Inr b"
    by (rule decode_utf8_encode)
  moreover from assms(2) have "set ca \<subseteq> set t"
    by (rule parse_ca_chain_subset)
  ultimately show ?thesis
    by (rule encode_utf8_subset)
qed

section \<open>Facts about the charm\<close>

lemma relation_created_eq:
  "relation_created st name =
     Inr (case relations st name of None \<Rightarrow> False | Some rs \<Rightarrow> rs \<noteq> [])"
  by (simp add: relation_created_def relations_get_def relations_getitem_def
      split: option.splits)

lemma extend_with_unit_csrs_concat:
  "extend_with_unit_csrs acc es = acc @ concat (map unit_csrs es)"
  by (induction es arbitrary: acc) simp_all

lemma length_get_outstanding_requests:
  "length (snd (get_outstanding_requests env st)) =
     sum_list (map (\<lambda>e. length (unit_csrs e))
       (get_requirer_csrs_with_no_certs env (relations st)))"
  by (simp add: get_outstanding_requests_def extend_with_unit_csrs_concat
      length_concat comp_def)

text \<open>When the validation of the action's input returns \<open>True\<close>.\<close>

lemma chain_is_valid_True:
  "chain_is_valid env cas = Inr True \<longleftrightarrow>
     list_all (\<lambda>ca. \<exists>b. encode_utf8 ca = Inr b \<and> certificate_is_valid env b) cas"
  by (induction cas) (auto split: sum.splits)

lemma decode_failed_not_True [simp]: "decode_failed e \<noteq> Inr True"
  by (simp add: decode_failed_def)

lemma action_certificates_are_valid_True:
  "action_certificates_are_valid env certificate ca_certificate
     certificate_signing_request ca_chain = Inr True \<longleftrightarrow>
   (\<exists>certificate_bytes ca_certificate_bytes csr_bytes ca_chain_bytes ca_chain_text.
      b64decode env certificate = Inr certificate_bytes
      \<and> b64decode env ca_certificate = Inr ca_certificate_bytes
      \<and> b64decode env certificate_signing_request = Inr csr_bytes
      \<and> b64decode env ca_chain = Inr ca_chain_bytes
      \<and> certificate_is_valid env certificate_bytes
      \<and> certificate_is_valid env ca_certificate_bytes
      \<and> certificate_signing_request_is_valid env csr_bytes
      \<and> decode_utf8 ca_chain_bytes = Inr ca_chain_text
      \<and> chain_is_valid env (parse_ca_chain ca_chain_text) = Inr True)"
  unfolding action_certificates_are_valid_def
  by (auto split: sum.splits)

text \<open>
  When it raises instead: the four texts decode and the certificate, the CA
  certificate and the CSR are valid, but the bytes of the chain are not UTF-8.
\<close>

lemma action_certificates_are_valid_raises:
  assumes "b64decode env certificate = Inr certificate_bytes"
    and "b64decode env ca_certificate = Inr ca_certificate_bytes"
    and "b64decode env certificate_signing_request = Inr csr_bytes"
    and "b64decode env ca_chain = Inr ca_chain_bytes"
    and "certificate_is_valid env certificate_bytes"
    and "certificate_is_valid env ca_certificate_bytes"
    and "certificate_signing_request_is_valid env csr_bytes"
    and "decode_utf8 ca_chain_bytes = Inl e"
  shows "action_certificates_are_valid env certificate ca_certificate
           certificate_signing_request ca_chain = Inl e"
  using assms by (simp add: action_certificates_are_valid_def)

lemma provide_certificate_raised:
  assumes "relation_created st (lit ''certificates'') = Inr True"
    and "action_certificates_are_valid env (certificate_param params)
           (ca_certificate_param params) (csr_param params) (ca_chain_param params) = Inl e"
  shows "on_provide_certificate_action env st params = (st, Raised e)"
  using assms by (simp add: on_provide_certificate_action_def)

lemma provide_certificate_attach:
  fixes env st params csr_text certificate_text ca_cert_text ca_chain_text
  defines "args \<equiv> \<lparr>csr_arg = strip csr_text,
                     certificate_arg = strip certificate_text,
                     ca_arg = strip ca_cert_text,
                     chain_arg = parse_ca_chain ca_chain_text,
                     relation_id_arg = relation_id_param params\<rparr>"
  defines "st1 \<equiv> st\<lparr>lib_calls := lib_calls st @ [SetRelationCertificate args]\<rparr>"
  assumes "relation_created st (lit ''certificates'') = Inr True"
    and "action_certificates_are_valid env (certificate_param params)
           (ca_certificate_param params) (csr_param params) (ca_chain_param params) = Inr True"
    and "b64decode_text env (ca_chain_param params) = Inr ca_chain_text"
    and "b64decode_text env (csr_param params) = Inr csr_text"
    and "b64decode_text env (certificate_param params) = Inr certificate_text"
    and "b64decode_text env (ca_certificate_param params) = Inr ca_cert_text"
  shows "on_provide_certificate_action env st params =
           (case set_relation_certificate env (relations st) args of
              Inl e \<Rightarrow>
                if is_RuntimeError e then (st1, Fail RELATION_NOT_FOUND_MESSAGE)
                else (st1, Raised e)
            | Inr relations' \<Rightarrow>
                (st1\<lparr>relations := relations'\<rparr>, SetResults SUCCESS_MESSAGE))"
  using assms(3-) unfolding args_def st1_def
  by (simp add: on_provide_certificate_action_def Let_def)

lemma messages_distinct:
  "NO_RELATION_MESSAGE \<noteq> INVALID_INPUT_MESSAGE"
  "NO_RELATION_MESSAGE \<noteq> RELATION_NOT_FOUND_MESSAGE"
  "RELATION_NOT_FOUND_MESSAGE \<noteq> INVALID_INPUT_MESSAGE"
  by (simp_all add: NO_RELATION_MESSAGE_def INVALID_INPUT_MESSAGE_def
      RELATION_NOT_FOUND_MESSAGE_def)


section \<open>Facts about the concrete instance\<close>

lemmas example_defs =
  example_certificate_def example_csr_def example_certificate_b64_def
  example_csr_b64_def example_chain_b64_def

lemmas eval_defs =
  py_b64decode_def b64_value_def decode_utf8_def encode_utf8_def utf8_enc1_def
  has_pem_envelope_def strip_def isspace_def cont_def suffix_to_prefix
  b64decode_text_def BEGIN_CERTIFICATE_def END_CERTIFICATE_def

lemma example_env_simps [simp]:
  "b64decode example_env = py_b64decode"
  "certificate_is_valid example_env = has_pem_envelope ''CERTIFICATE''"
  "certificate_signing_request_is_valid example_env = has_pem_envelope ''CERTIFICATE REQUEST''"
  "get_requirer_csrs_with_no_certs example_env = listOutstanding"
  "get_requirer_csrs example_env = listByRequester"
  "set_relation_certificate example_env = attachCertificate"
  by (simp_all add: example_env_def)

lemma example_params_simps [simp]:
  "relation_id_param (example_params i) = i"
  "certificate_param (example_params i) = example_certificate_b64"
  "ca_certificate_param (example_params i) = example_certificate_b64"
  "csr_param (example_params i) = example_csr_b64"
  "ca_chain_param (example_params i) = example_chain_b64"
  by (simp_all add: example_params_def)

lemma no_relation_state_created:
  "relation_created no_relation_state (lit ''certificates'') = Inr False"
  by (simp add: relation_created_eq no_relation_state_def)

lemma example_state_created:
  "relation_created example_state (lit ''certificates'') = Inr True"
  by (simp add: relation_created_eq example_state_def no_relation_state_def)

lemma example_certificate_text:
  "b64decode_text example_env example_certificate_b64 = Inr (32 # example_certificate @ [10])"
  by (simp add: eval_defs example_defs)

lemma example_csr_text:
  "b64decode_text example_env example_csr_b64 = Inr (example_csr @ [10])"
  by (simp add: eval_defs example_defs)

lemma example_chain_text:
  "b64decode_text example_env example_chain_b64 =
     Inr (example_certificate @ 10 # example_certificate @ [10])"
  by (simp add: eval_defs example_defs)

lemma strip_example_certificate:
  "strip (32 # example_certificate @ [10]) = example_certificate"
  by (simp add: eval_defs example_defs)

lemma strip_example_csr: "strip (example_csr @ [10]) = example_csr"
  by (simp add: eval_defs example_defs)

lemma parse_example_chain:
  "parse_ca_chain (example_certificate @ 10 # example_certificate @ [10]) =
     [example_certificate, example_certificate]"
  by (simp add: parse_ca_chain.simps eval_defs example_defs)

lemma example_input_valid:
  "action_certificates_are_valid example_env example_certificate_b64
     example_certificate_b64 example_csr_b64 example_chain_b64 = Inr True"
  by (simp add: action_certificates_are_valid_def parse_ca_chain.simps eval_defs example_defs)

lemma undecodable_input_invalid:
  "action_certificates_are_valid example_env (lit ''A'')
     example_certificate_b64 example_csr_b64 example_chain_b64 = Inr False"
  by (simp add: action_certificates_are_valid_def py_b64decode_def b64_value_def
      decode_failed_def)

text \<open>The bytes of the example inputs.\<close>

lemma example_certificate_bytes:
  "py_b64decode example_certificate_b64 = Inr (map of_nat (32 # example_certificate @ [10]))"
  by (simp add: eval_defs example_defs)

lemma example_csr_bytes:
  "py_b64decode example_csr_b64 = Inr (map of_nat (example_csr @ [10]))"
  by (simp add: eval_defs example_defs)

lemma example_chain_bytes:
  "py_b64decode example_chain_b64 =
     Inr (map of_nat (example_certificate @ 10 # example_certificate @ [10]))"
  by (simp add: eval_defs example_defs)

lemma accented_csr_bytes:
  "py_b64decode accented_csr_b64 =
     Inr (map of_nat (lit ''-----BEGIN CERTIFICATE REQUEST-----'') @ [10, 195, 169, 10]
          @ map of_nat (lit ''-----END CERTIFICATE REQUEST-----'') @ [10])"
  by (simp add: eval_defs accented_csr_b64_def)


lemma example_certificate_bytes_text:
  "decode_utf8 (map of_nat (32 # example_certificate @ [10])) =
     Inr (32 # example_certificate @ [10])"
  by (simp add: eval_defs example_defs)

lemma example_csr_bytes_text:
  "decode_utf8 (map of_nat (example_csr @ [10])) = Inr (example_csr @ [10])"
  by (simp add: eval_defs example_defs)

lemma example_chain_bytes_text:
  "decode_utf8 (map of_nat (example_certificate @ 10 # example_certificate @ [10])) =
     Inr (example_certificate @ 10 # example_certificate @ [10])"
  by (simp add: eval_defs example_defs)

lemma accented_csr_bytes_text:
  "decode_utf8 (map of_nat (lit ''-----BEGIN CERTIFICATE REQUEST-----'') @ [10, 195, 169, 10]
          @ map of_nat (lit ''-----END CERTIFICATE REQUEST-----'') @ [10]) =
     Inr (accented_csr @ [10])"
  by (simp add: eval_defs accented_csr_def)



lemma example_certificate_bytes_valid:
  "has_pem_envelope ''CERTIFICATE'' (map of_nat (32 # example_certificate @ [10]))"
  by (simp add: eval_defs example_defs)

lemma example_csr_bytes_valid:
  "has_pem_envelope ''CERTIFICATE REQUEST'' (map of_nat (example_csr @ [10]))"
  by (simp add: eval_defs example_defs)

lemma accented_csr_bytes_valid:
  "has_pem_envelope ''CERTIFICATE REQUEST''
     (map of_nat (lit ''-----BEGIN CERTIFICATE REQUEST-----'') @ [10, 195, 169, 10]
      @ map of_nat (lit ''-----END CERTIFICATE REQUEST-----'') @ [10])"
  by (simp add: eval_defs)

lemma strict_env_simps [simp]:
  "b64decode strict_env = py_b64decode"
  "certificate_is_valid strict_env =
     (\<lambda>b. has_pem_envelope ''CERTIFICATE'' b
        \<and> length BEGIN_CERTIFICATE + length END_CERTIFICATE < length b)"
  "certificate_signing_request_is_valid strict_env = has_pem_envelope ''CERTIFICATE REQUEST''"
  by (simp_all add: strict_env_def example_env_def)








section \<open>The claims\<close>




text \<open>
  C2. When the inputs pass the validation but no session has the given relation id, the
  not-found failure of the attach step is caught and reported as the relation-not-found
  outcome, which is not the invalid-input outcome, whether or not the CSR matches an
  entry of another relation; no success result is set. This holds where the attach step
  is reached: a certificates relation exists, the validation returns \<open>True\<close> and the
  payloads are UTF-8 text (for the chain this follows from the validation). The attach
  step is the library's; whatever \<open>RuntimeError\<close> it raises on the arguments it is given
  is reported so, and the relations are left as they were.
\<close>

theorem provide_certificate_relation_not_found:
  fixes env st params csr_text certificate_text ca_cert_text ca_chain_text
  defines "args \<equiv> \<lparr>csr_arg = strip csr_text,
                     certificate_arg = strip certificate_text,
                     ca_arg = strip ca_cert_text,
                     chain_arg = parse_ca_chain ca_chain_text,
                     relation_id_arg = relation_id_param params\<rparr>"
  assumes created: "relation_created st (lit ''certificates'') = Inr True"
    and valid: "action_certificates_are_valid env (certificate_param params)
           (ca_certificate_param params) (csr_param params) (ca_chain_param params) = Inr True"
    and chain: "b64decode_text env (ca_chain_param params) = Inr ca_chain_text"
    and csr: "b64decode_text env (csr_param params) = Inr csr_text"
    and certificate: "b64decode_text env (certificate_param params) = Inr certificate_text"
    and ca: "b64decode_text env (ca_certificate_param params) = Inr ca_cert_text"
    and raised: "set_relation_certificate env (relations st) args = Inl e"
    and runtime: "is_RuntimeError e"
  shows "on_provide_certificate_action env st params =
           (st\<lparr>lib_calls := lib_calls st @ [SetRelationCertificate args]\<rparr>,
            Fail RELATION_NOT_FOUND_MESSAGE)
         \<and> RELATION_NOT_FOUND_MESSAGE \<noteq> INVALID_INPUT_MESSAGE"
proof -
  note attach = provide_certificate_attach [OF created valid chain csr certificate ca]
  from raised runtime have
    "on_provide_certificate_action env st params =
       (st\<lparr>lib_calls := lib_calls st @ [SetRelationCertificate args]\<rparr>,
        Fail RELATION_NOT_FOUND_MESSAGE)"
    unfolding attach args_def by simp
  then show ?thesis using messages_distinct(3) by simp
qed

text \<open>
  Modelled from the spec, the ledger raises the error for every relation id that no
  session has, whatever the other arguments.
\<close>

lemma attachCertificate_unknown_relation:
  "find_relation m (relation_id_arg a) = None \<Longrightarrow> attachCertificate m a = Inl RuntimeError"
  by (simp add: attachCertificate_def)

lemma example_state_relations:
  "certificates_relations (relations example_state) = [example_relation]"
  by (simp add: certificates_relations_def example_state_def no_relation_state_def)

lemma example_find_relation:
  "find_relation (relations example_state) i =
     (if i = 7 then Some example_relation else None)"
  by (simp add: find_relation_def example_state_relations example_relation_def)

text \<open>
  An instance: the CSR is the one \<open>unit/0\<close> submitted on relation 7, and the action names
  relation 8.
\<close>

theorem provide_certificate_relation_not_found_witness:
  "on_provide_certificate_action example_env example_state (example_params 8) =
     (example_state\<lparr>lib_calls :=
        [SetRelationCertificate
           \<lparr>csr_arg = example_csr,
            certificate_arg = example_certificate,
            ca_arg = example_certificate,
            chain_arg = [example_certificate, example_certificate],
            relation_id_arg = 8\<rparr>]\<rparr>,
      Fail RELATION_NOT_FOUND_MESSAGE)
   \<and> request_csr (hd (requests (hd (units example_relation)))) = example_csr"
proof -
  have "attachCertificate (relations example_state)
          \<lparr>csr_arg = example_csr,
           certificate_arg = example_certificate,
           ca_arg = example_certificate,
           chain_arg = [example_certificate, example_certificate],
           relation_id_arg = 8\<rparr> = Inl RuntimeError"
    by (rule attachCertificate_unknown_relation) (simp add: example_find_relation)
  then have
    "on_provide_certificate_action example_env example_state (example_params 8) =
       (example_state\<lparr>lib_calls := lib_calls example_state @
          [SetRelationCertificate
             \<lparr>csr_arg = example_csr,
              certificate_arg = example_certificate,
              ca_arg = example_certificate,
              chain_arg = [example_certificate, example_certificate],
              relation_id_arg = 8\<rparr>]\<rparr>,
        Fail RELATION_NOT_FOUND_MESSAGE)"
    using provide_certificate_relation_not_found
      [of example_state example_env "example_params 8"
        "example_certificate @ 10 # example_certificate @ [10]"
        "example_csr @ [10]" "32 # example_certificate @ [10]"
        "32 # example_certificate @ [10]" RuntimeError]
      example_state_created example_input_valid example_chain_text example_csr_text
      example_certificate_text
    by (simp add: strip_example_certificate strip_example_csr parse_example_chain
        is_RuntimeError_def)
  moreover have "lib_calls example_state = []"
    by (simp add: example_state_def no_relation_state_def)
  moreover have "request_csr (hd (requests (hd (units example_relation)))) = example_csr"
    by (simp add: example_relation_def)
  ultimately show ?thesis by simp
qed

text \<open>
  Before any relation is created, valid input and a relation id that no session has
  give the other failure: the guard of the handler comes first.
\<close>

theorem provide_certificate_relation_not_found_counterexample:
  "action_certificates_are_valid example_env example_certificate_b64
     example_certificate_b64 example_csr_b64 example_chain_b64 = Inr True
   \<and> find_relation (relations no_relation_state) 7 = None
   \<and> on_provide_certificate_action example_env no_relation_state (example_params 7) =
     (no_relation_state, Fail NO_RELATION_MESSAGE)
   \<and> NO_RELATION_MESSAGE \<noteq> RELATION_NOT_FOUND_MESSAGE"
proof -
  have "find_relation (relations no_relation_state) 7 = None"
    by (simp add: find_relation_def certificates_relations_def no_relation_state_def)
  moreover have
    "on_provide_certificate_action example_env no_relation_state (example_params 7) =
       (no_relation_state, Fail NO_RELATION_MESSAGE)"
    using no_relation_state_created by (simp add: on_provide_certificate_action_def)
  ultimately show ?thesis
    using example_input_valid messages_distinct(2) by simp
qed

text \<open>
  C5. Before persistence the CSR, the certificate and the CA certificate are decoded
  as UTF-8 from the base64-decoded bytes and trimmed of surrounding white space, and
  these trimmed strings, with the parsed chain, are what the attach step is given.
  Where the guard has passed, the four texts are decoded from base64 to bytes that are
  UTF-8, and the certificate, the CA certificate, the CSR and every block of the chain
  are valid, the handler makes one call of \<open>set_relation_certificate\<close>, on the relations
  of the state and with exactly these arguments, and its outcome is that of the call.
  Each text is the UTF-8 decoding of its bytes (encoded again it gives these bytes),
  and each string passed is that text without the white space at its two ends.
\<close>

theorem provide_certificate_passes_trimmed_texts:
  fixes env st params csr_text certificate_text ca_cert_text ca_chain_text
  defines "args \<equiv> \<lparr>csr_arg = strip csr_text,
                     certificate_arg = strip certificate_text,
                     ca_arg = strip ca_cert_text,
                     chain_arg = parse_ca_chain ca_chain_text,
                     relation_id_arg = relation_id_param params\<rparr>"
  defines "st1 \<equiv> st\<lparr>lib_calls := lib_calls st @ [SetRelationCertificate args]\<rparr>"
  assumes created: "relation_created st (lit ''certificates'') = Inr True"
    and csr_bytes: "b64decode env (csr_param params) = Inr csr_bytes"
    and certificate_bytes: "b64decode env (certificate_param params) = Inr certificate_bytes"
    and ca_bytes: "b64decode env (ca_certificate_param params) = Inr ca_certificate_bytes"
    and chain_bytes: "b64decode env (ca_chain_param params) = Inr ca_chain_bytes"
    and csr: "decode_utf8 csr_bytes = Inr csr_text"
    and certificate: "decode_utf8 certificate_bytes = Inr certificate_text"
    and ca: "decode_utf8 ca_certificate_bytes = Inr ca_cert_text"
    and chain: "decode_utf8 ca_chain_bytes = Inr ca_chain_text"
    and certificate_valid: "certificate_is_valid env certificate_bytes"
    and ca_valid: "certificate_is_valid env ca_certificate_bytes"
    and csr_valid: "certificate_signing_request_is_valid env csr_bytes"
    and blocks_valid: "\<forall>block\<in>set (parse_ca_chain ca_chain_text).
           \<forall>b. encode_utf8 block = Inr b \<longrightarrow> certificate_is_valid env b"
  shows "on_provide_certificate_action env st params =
           (case set_relation_certificate env (relations st) args of
              Inl e \<Rightarrow>
                if is_RuntimeError e then (st1, Fail RELATION_NOT_FOUND_MESSAGE)
                else (st1, Raised e)
            | Inr relations' \<Rightarrow>
                (st1\<lparr>relations := relations'\<rparr>, SetResults SUCCESS_MESSAGE))
         \<and> lib_calls (fst (on_provide_certificate_action env st params)) =
             lib_calls st @ [SetRelationCertificate args]
         \<and> encode_utf8 csr_text = Inr csr_bytes
         \<and> encode_utf8 certificate_text = Inr certificate_bytes
         \<and> encode_utf8 ca_cert_text = Inr ca_certificate_bytes
         \<and> trimmed_of csr_text (csr_arg args)
         \<and> trimmed_of certificate_text (certificate_arg args)
         \<and> trimmed_of ca_cert_text (ca_arg args)"
proof -
  have "list_all (\<lambda>block. \<exists>b. encode_utf8 block = Inr b \<and> certificate_is_valid env b)
          (parse_ca_chain ca_chain_text)"
    unfolding list_all_iff
  proof
    fix block
    assume block: "block \<in> set (parse_ca_chain ca_chain_text)"
    with chain obtain b where "encode_utf8 block = Inr b"
      by (blast dest: chain_blocks_encode)
    with block show "\<exists>b. encode_utf8 block = Inr b \<and> certificate_is_valid env b"
      using blocks_valid by blast
  qed
  then have "chain_is_valid env (parse_ca_chain ca_chain_text) = Inr True"
    by (simp add: chain_is_valid_True)
  with csr_bytes certificate_bytes ca_bytes chain_bytes chain certificate_valid ca_valid
    csr_valid
  have valid: "action_certificates_are_valid env (certificate_param params)
      (ca_certificate_param params) (csr_param params) (ca_chain_param params) = Inr True"
    by (simp add: action_certificates_are_valid_True)
  have texts: "b64decode_text env (ca_chain_param params) = Inr ca_chain_text"
    "b64decode_text env (csr_param params) = Inr csr_text"
    "b64decode_text env (certificate_param params) = Inr certificate_text"
    "b64decode_text env (ca_certificate_param params) = Inr ca_cert_text"
    using csr_bytes certificate_bytes ca_bytes chain_bytes csr certificate ca chain
    by (simp_all add: b64decode_text_def)
  have attach: "on_provide_certificate_action env st params =
           (case set_relation_certificate env (relations st) args of
              Inl e \<Rightarrow>
                if is_RuntimeError e then (st1, Fail RELATION_NOT_FOUND_MESSAGE)
                else (st1, Raised e)
            | Inr relations' \<Rightarrow>
                (st1\<lparr>relations := relations'\<rparr>, SetResults SUCCESS_MESSAGE))"
    unfolding args_def st1_def
    using created valid texts by (rule provide_certificate_attach)
  then have "lib_calls (fst (on_provide_certificate_action env st params)) =
      lib_calls st @ [SetRelationCertificate args]"
    by (simp add: st1_def split: sum.splits)
  moreover have "encode_utf8 csr_text = Inr csr_bytes"
    "encode_utf8 certificate_text = Inr certificate_bytes"
    "encode_utf8 ca_cert_text = Inr ca_certificate_bytes"
    using csr certificate ca by (simp_all add: decode_utf8_encode)
  moreover have "trimmed_of csr_text (csr_arg args)"
    "trimmed_of certificate_text (certificate_arg args)"
    "trimmed_of ca_cert_text (ca_arg args)"
    by (simp_all add: args_def strip_trimmed)
  ultimately show ?thesis
    using attach by simp
qed

text \<open>
  Instances: the certificate is passed with a leading blank and a final newline, the
  CSR with a final newline, and the attach step receives them without; and a CSR whose
  body is the two bytes of U+00E9 is passed on as text with that one character.
\<close>

theorem provide_certificate_passes_trimmed_texts_witness:
  "on_provide_certificate_action example_env example_state (example_params 7) =
     (example_state
        \<lparr>lib_calls :=
           [SetRelationCertificate
              \<lparr>csr_arg = example_csr,
               certificate_arg = example_certificate,
               ca_arg = example_certificate,
               chain_arg = [example_certificate, example_certificate],
               relation_id_arg = 7\<rparr>],
         relations := (relations example_state)(lit ''certificates'' \<mapsto> [provided_relation])\<rparr>,
      SetResults SUCCESS_MESSAGE)
   \<and> lib_calls (fst (on_provide_certificate_action example_env example_state
        ((example_params 7)\<lparr>csr_param := accented_csr_b64\<rparr>))) =
     [SetRelationCertificate
        \<lparr>csr_arg = accented_csr,
         certificate_arg = example_certificate,
         ca_arg = example_certificate,
         chain_arg = [example_certificate, example_certificate],
         relation_id_arg = 7\<rparr>]
   \<and> accented_csr ! 36 = 233
   \<and> length accented_csr = 71"
proof -
  let ?certificate_bytes = "map of_nat (32 # example_certificate @ [10]) :: bytes"
  let ?csr_bytes = "map of_nat (example_csr @ [10]) :: bytes"
  let ?chain_bytes =
    "map of_nat (example_certificate @ 10 # example_certificate @ [10]) :: bytes"
  let ?accented_bytes =
    "map of_nat (lit ''-----BEGIN CERTIFICATE REQUEST-----'') @ [10, 195, 169, 10]
       @ map of_nat (lit ''-----END CERTIFICATE REQUEST-----'') @ [10] :: bytes"
  let ?accented_params = "(example_params 7)\<lparr>csr_param := accented_csr_b64\<rparr>"
  have csr: "b64decode example_env (csr_param (example_params 7)) = Inr ?csr_bytes"
    and certificate:
      "b64decode example_env (certificate_param (example_params 7)) = Inr ?certificate_bytes"
    and ca:
      "b64decode example_env (ca_certificate_param (example_params 7)) = Inr ?certificate_bytes"
    and chain: "b64decode example_env (ca_chain_param (example_params 7)) = Inr ?chain_bytes"
    by (simp_all add: example_csr_bytes example_certificate_bytes example_chain_bytes)
  have accented: "b64decode example_env (csr_param ?accented_params) = Inr ?accented_bytes"
    and certificate':
      "b64decode example_env (certificate_param ?accented_params) = Inr ?certificate_bytes"
    and ca':
      "b64decode example_env (ca_certificate_param ?accented_params) = Inr ?certificate_bytes"
    and chain': "b64decode example_env (ca_chain_param ?accented_params) = Inr ?chain_bytes"
    by (simp_all add: accented_csr_bytes example_certificate_bytes example_chain_bytes)
  have certificate_valid: "certificate_is_valid example_env ?certificate_bytes"
    and csr_valid: "certificate_signing_request_is_valid example_env ?csr_bytes"
    and accented_valid: "certificate_signing_request_is_valid example_env ?accented_bytes"
    using example_certificate_bytes_valid example_csr_bytes_valid accented_csr_bytes_valid
    by simp_all
  have "has_pem_envelope ''CERTIFICATE'' b" if "encode_utf8 example_certificate = Inr b" for b
    using that by (auto simp: eval_defs example_defs)
  then have blocks:
    "\<forall>block\<in>set (parse_ca_chain (example_certificate @ 10 # example_certificate @ [10])).
       \<forall>b. encode_utf8 block = Inr b \<longrightarrow> certificate_is_valid example_env b"
    by (simp add: parse_example_chain)
  have no_calls: "lib_calls example_state = []"
    by (simp add: example_state_def no_relation_state_def)
  have differ: "lit ''csr-2'' \<noteq> example_csr"
    by (simp add: example_csr_def)
  have attached: "attachCertificate (relations example_state)
          \<lparr>csr_arg = example_csr,
           certificate_arg = example_certificate,
           ca_arg = example_certificate,
           chain_arg = [example_certificate, example_certificate],
           relation_id_arg = 7\<rparr> =
        Inr ((relations example_state)(lit ''certificates'' \<mapsto> [provided_relation]))"
    using differ
    by (simp add: attachCertificate_def example_find_relation example_state_relations
        answer_relation_def answer_entry_def example_relation_def provided_relation_def)
  have strip_accented: "strip (accented_csr @ [10]) = accented_csr"
    by (simp add: eval_defs accented_csr_def)
  note first = provide_certificate_passes_trimmed_texts
    [OF example_state_created csr certificate ca chain example_csr_bytes_text
      example_certificate_bytes_text example_certificate_bytes_text
      example_chain_bytes_text certificate_valid certificate_valid csr_valid blocks]
  note second = provide_certificate_passes_trimmed_texts
    [OF example_state_created accented certificate' ca' chain' accented_csr_bytes_text
      example_certificate_bytes_text example_certificate_bytes_text
      example_chain_bytes_text certificate_valid certificate_valid accented_valid blocks]
  have "on_provide_certificate_action example_env example_state (example_params 7) =
     (example_state
        \<lparr>lib_calls :=
           [SetRelationCertificate
              \<lparr>csr_arg = example_csr,
               certificate_arg = example_certificate,
               ca_arg = example_certificate,
               chain_arg = [example_certificate, example_certificate],
               relation_id_arg = 7\<rparr>],
         relations := (relations example_state)(lit ''certificates'' \<mapsto> [provided_relation])\<rparr>,
      SetResults SUCCESS_MESSAGE)"
    using conjunct1 [OF first] no_calls attached
    by (simp add: strip_example_certificate strip_example_csr parse_example_chain)
  moreover have "lib_calls (fst (on_provide_certificate_action example_env example_state
        ?accented_params)) =
     [SetRelationCertificate
        \<lparr>csr_arg = accented_csr,
         certificate_arg = example_certificate,
         ca_arg = example_certificate,
         chain_arg = [example_certificate, example_certificate],
         relation_id_arg = 7\<rparr>]"
    using conjunct1 [OF conjunct2 [OF second]] no_calls
    by (simp add: strip_example_certificate strip_accented parse_example_chain)
  moreover have "accented_csr ! 36 = 233" "length accented_csr = 71"
    by (simp_all add: accented_csr_def)
  ultimately show ?thesis
    by simp
qed

text \<open>
  C6. In a state where no certificates relation has been created (the name has no
  relation, or is not declared), each of the three actions fails with the message that
  no relation exists yet, which is neither of the two other failure messages, and
  neither queries nor changes the ledger: the state returned is the state given, with
  the same relations and the same record of library calls.
\<close>

theorem actions_fail_without_relation:
  assumes none:
    "relations st (lit ''certificates'') = None \<or> relations st (lit ''certificates'') = Some []"
  shows "on_get_outstanding_certificate_requests_action env st = (st, Fail NO_RELATION_MESSAGE)
         \<and> on_get_certificate_request_action env st relation_id = (st, Fail NO_RELATION_MESSAGE)
         \<and> on_provide_certificate_action env st params = (st, Fail NO_RELATION_MESSAGE)
         \<and> NO_RELATION_MESSAGE \<noteq> INVALID_INPUT_MESSAGE
         \<and> NO_RELATION_MESSAGE \<noteq> RELATION_NOT_FOUND_MESSAGE"
proof -
  from none have created: "relation_created st (lit ''certificates'') = Inr False"
    unfolding relation_created_eq by auto
  have "on_get_outstanding_certificate_requests_action env st = (st, Fail NO_RELATION_MESSAGE)"
    using created by (simp add: on_get_outstanding_certificate_requests_action_def)
  moreover have
    "on_get_certificate_request_action env st relation_id = (st, Fail NO_RELATION_MESSAGE)"
    using created by (simp add: on_get_certificate_request_action_def)
  moreover have
    "on_provide_certificate_action env st params = (st, Fail NO_RELATION_MESSAGE)"
    using created by (simp add: on_provide_certificate_action_def)
  ultimately show ?thesis
    using messages_distinct(1,2) by simp
qed

text \<open>An instance: the unit before any relation is created.\<close>

theorem actions_fail_without_relation_witness:
  "on_get_outstanding_certificate_requests_action example_env no_relation_state =
     (no_relation_state, Fail NO_RELATION_MESSAGE)
   \<and> on_get_certificate_request_action example_env no_relation_state 7 =
     (no_relation_state, Fail NO_RELATION_MESSAGE)
   \<and> on_provide_certificate_action example_env no_relation_state (example_params 7) =
     (no_relation_state, Fail NO_RELATION_MESSAGE)"
proof -
  have "relations no_relation_state (lit ''certificates'') = Some []"
    by (simp add: no_relation_state_def)
  then show ?thesis
    using actions_fail_without_relation
      [of no_relation_state example_env 7 "example_params 7"]
    by simp
qed

text \<open>
  C7. The single-owner precondition is enforced at construction: on a unit that is not
  the leader, initialisation ends with \<open>NotImplementedError\<close> and registers no observer
  (the framework is left as it was).
\<close>

theorem charm_init_requires_leader:
  assumes "\<not> is_leader st"
  shows "charm_init st = (st, Some NotImplementedError)
         \<and> observers (fst (charm_init st)) = observers st"
proof -
  from assms have "charm_init st = (st, Some NotImplementedError)"
    by (simp add: charm_init_def)
  then show ?thesis by simp
qed

text \<open>On the leader, initialisation ends normally and registers the five observers.\<close>

lemma charm_init_leader:
  assumes "is_leader st"
  shows "snd (charm_init st) = None"
    and "length (observers (fst (charm_init st))) = length (observers st) + 5"
  using assms by (simp_all add: charm_init_def)

theorem charm_init_requires_leader_witness:
  "charm_init (no_relation_state\<lparr>is_leader := False\<rparr>) =
     (no_relation_state\<lparr>is_leader := False\<rparr>, Some NotImplementedError)
   \<and> observers (fst (charm_init (no_relation_state\<lparr>is_leader := False\<rparr>))) = []"
proof -
  have "observers (no_relation_state\<lparr>is_leader := False\<rparr>) = []"
    by (simp add: no_relation_state_def)
  then show ?thesis
    using charm_init_requires_leader [of "no_relation_state\<lparr>is_leader := False\<rparr>"]
    by simp
qed

text \<open>
  C9. The check \<open>_relation_created\<close> is total: for every relation name it returns a
  truth value and lets no exception through; it returns \<open>False\<close> when the name is
  unknown and when the name has an empty list of relations.
\<close>

theorem relation_created_total:
  "(\<exists>b. relation_created st relation_name = Inr b)
   \<and> (relations st relation_name = None \<longrightarrow> relation_created st relation_name = Inr False)
   \<and> (relations st relation_name = Some [] \<longrightarrow> relation_created st relation_name = Inr False)"
proof (cases "relations st relation_name")
  case None
  then have "relation_created st relation_name = Inr False"
    by (simp add: relation_created_eq)
  with None show ?thesis by auto
next
  case (Some rs)
  then have "relation_created st relation_name = Inr (rs \<noteq> [])"
    by (simp add: relation_created_eq)
  with Some show ?thesis by auto
qed

theorem relation_created_total_witness:
  "relation_created no_relation_state (lit ''certificates'') = Inr False
   \<and> relation_created no_relation_state (lit ''replicas'') = Inr False"
proof -
  have "relations no_relation_state (lit ''certificates'') = Some []"
    and "relations no_relation_state (lit ''replicas'') = None"
    by (simp_all add: no_relation_state_def)
  then show ?thesis
    using relation_created_total [of no_relation_state "lit ''certificates''"]
      relation_created_total [of no_relation_state "lit ''replicas''"]
    by simp
qed

text \<open>
  C10. On a certificate creation request the status message reports the number of
  outstanding CSRs summed over the requester units (the length of the concatenation
  of their \<open>unit_csrs\<close> lists), not the number of units: the message begins with the
  decimal numeral of that number, made of digits only, with no leading zero, and whose
  value is the number.
\<close>

theorem creation_request_status_counts_csrs:
  "unit_status (on_certificate_creation_request env st) =
     ActiveStatus
       (str_of_nat
          (sum_list (map (\<lambda>element. length (unit_csrs element))
             (get_requirer_csrs_with_no_certs env (relations st))))
        @ lit '' outstanding requests, use juju actions to provide certificates'')
   \<and> sum_list (map (\<lambda>element. length (unit_csrs element))
        (get_requirer_csrs_with_no_certs env (relations st))) =
     length (concat (map unit_csrs (get_requirer_csrs_with_no_certs env (relations st))))
   \<and> (\<exists>numeral.
         unit_status (on_certificate_creation_request env st) =
           ActiveStatus
             (numeral @ lit '' outstanding requests, use juju actions to provide certificates'')
         \<and> decimal_value numeral =
             length (concat (map unit_csrs
               (get_requirer_csrs_with_no_certs env (relations st))))
         \<and> numeral \<noteq> []
         \<and> (\<forall>c\<in>set numeral. 48 \<le> c \<and> c \<le> 57)
         \<and> (hd numeral = 48 \<longrightarrow> numeral = [48]))"
proof -
  define count where
    "count = sum_list (map (\<lambda>element. length (unit_csrs element))
       (get_requirer_csrs_with_no_certs env (relations st)))"
  obtain st1 outstanding where run: "get_outstanding_requests env st = (st1, outstanding)"
    by (cases "get_outstanding_requests env st")
  then have "length outstanding = count"
    using length_get_outstanding_requests [of env st] by (simp add: count_def)
  with run have status: "unit_status (on_certificate_creation_request env st) =
     ActiveStatus
       (str_of_nat count
        @ lit '' outstanding requests, use juju actions to provide certificates'')"
    by (simp add: on_certificate_creation_request_def)
  have count: "count =
      length (concat (map unit_csrs (get_requirer_csrs_with_no_certs env (relations st))))"
    by (simp add: count_def length_concat comp_def)
  have numeral: "str_of_nat n \<noteq> [] \<and> (\<forall>c\<in>set (str_of_nat n). 48 \<le> c \<and> c \<le> 57)
      \<and> (hd (str_of_nat n) = 48 \<longrightarrow> n = 0) \<and> decimal_value (str_of_nat n) = n" for n
  proof (induction n rule: str_of_nat.induct)
    case (1 n)
    show ?case
    proof (cases "n < 10")
      case True
      then show ?thesis
        by (subst (1 2 3 4) str_of_nat.simps) (simp add: decimal_value_def)
    next
      case False
      with "1" have IH: "str_of_nat (n div 10) \<noteq> []"
        "\<forall>c\<in>set (str_of_nat (n div 10)). 48 \<le> c \<and> c \<le> 57"
        "hd (str_of_nat (n div 10)) = 48 \<longrightarrow> n div 10 = 0"
        "decimal_value (str_of_nat (n div 10)) = n div 10"
        by simp_all
      have step: "str_of_nat n = str_of_nat (n div 10) @ [48 + n mod 10]"
        using False by (subst str_of_nat.simps) simp
      have "n mod 10 < 10"
        by simp
      then have "48 + n mod 10 \<le> 57"
        by linarith
      moreover from False have "n div 10 \<noteq> 0"
        by simp
      moreover have "decimal_value (str_of_nat (n div 10) @ [48 + n mod 10]) = n"
        using IH(4) by (simp add: decimal_value_def)
      ultimately show ?thesis
        unfolding step using IH(1-3) by simp
    qed
  qed
  have digits: "str_of_nat count \<noteq> []"
    "\<forall>c\<in>set (str_of_nat count). 48 \<le> c \<and> c \<le> 57"
    "hd (str_of_nat count) = 48 \<longrightarrow> count = 0"
    "decimal_value (str_of_nat count) = count"
    using numeral [of count] by simp_all
  have "str_of_nat 0 = [48]"
    by (simp add: str_of_nat.simps)
  with digits(3) have canonical: "hd (str_of_nat count) = 48 \<longrightarrow> str_of_nat count = [48]"
    by auto
  from digits(4) status count digits(1,2) canonical
  have "\<exists>numeral.
         unit_status (on_certificate_creation_request env st) =
           ActiveStatus
             (numeral @ lit '' outstanding requests, use juju actions to provide certificates'')
         \<and> decimal_value numeral =
             length (concat (map unit_csrs
               (get_requirer_csrs_with_no_certs env (relations st))))
         \<and> numeral \<noteq> []
         \<and> (\<forall>c\<in>set numeral. 48 \<le> c \<and> c \<le> 57)
         \<and> (hd numeral = 48 \<longrightarrow> numeral = [48])"
    by (intro exI [of _ "str_of_nat count"]) simp
  with status count show ?thesis
    unfolding count_def by simp
qed

text \<open>
  An instance: one unit with two outstanding CSRs; the message says 2 and not 1.
\<close>

theorem creation_request_status_counts_csrs_witness:
  "unit_status (on_certificate_creation_request example_env example_state) =
     ActiveStatus (lit ''2 outstanding requests, use juju actions to provide certificates'')
   \<and> length (get_requirer_csrs_with_no_certs example_env (relations example_state)) = 1
   \<and> decimal_value (lit ''2'') = 2"
proof -
  have "listOutstanding (relations example_state) =
          [\<lparr>unit_name = lit ''unit/0'', unit_csrs = [example_csr, lit ''csr-2'']\<rparr>]"
    by (simp add: listOutstanding_def example_state_relations example_relation_def
        outstanding_of_def)
  moreover have "str_of_nat (Suc (Suc 0)) = lit ''2''"
    by (simp add: str_of_nat.simps)
  moreover have "decimal_value (lit ''2'') = 2"
    by (simp add: decimal_value_def)
  ultimately show ?thesis
    using creation_request_status_counts_csrs [of example_env example_state]
    by simp
qed

text \<open>
  C3. The validation of the action's input decodes the four inputs from base64,
  validates the certificate and the CA certificate, then the CSR, then splits the chain
  into PEM blocks and validates each, and every failure yields the invalid-input
  outcome. The code returns \<open>True\<close> exactly when every step passes
  (\<open>action_certificates_are_valid_True\<close>), but not every failure is its \<open>False\<close>: a chain
  that is base64 of bytes that are not UTF-8 (\<open>/w==\<close> is the one byte 255) makes
  \<open>ca_chain_bytes.decode()\<close> raise \<open>UnicodeDecodeError\<close>, which nothing catches, and a
  text with a character outside ASCII makes \<open>b64decode\<close> raise a plain \<open>ValueError\<close>,
  which the \<open>except\<close> clause does not name. The exception leaves the handler too.
\<close>

theorem validation_raises_on_undecodable_chain:
  "action_certificates_are_valid example_env example_certificate_b64
     example_certificate_b64 example_csr_b64 (lit ''/w=='') = Inl UnicodeDecodeError
   \<and> on_provide_certificate_action example_env example_state
       ((example_params 7)\<lparr>ca_chain_param := lit ''/w==''\<rparr>) =
     (example_state, Raised UnicodeDecodeError)
   \<and> action_certificates_are_valid example_env [233]
       example_certificate_b64 example_csr_b64 example_chain_b64 = Inl ValueError"
proof -
  have chain: "action_certificates_are_valid example_env example_certificate_b64
     example_certificate_b64 example_csr_b64 (lit ''/w=='') = Inl UnicodeDecodeError"
    by (simp add: action_certificates_are_valid_def eval_defs example_defs)
  then have "on_provide_certificate_action example_env example_state
       ((example_params 7)\<lparr>ca_chain_param := lit ''/w==''\<rparr>) =
     (example_state, Raised UnicodeDecodeError)"
    using provide_certificate_raised
      [of example_state example_env "(example_params 7)\<lparr>ca_chain_param := lit ''/w==''\<rparr>"
        UnicodeDecodeError]
      example_state_created
    by simp
  moreover have "action_certificates_are_valid example_env [233]
       example_certificate_b64 example_csr_b64 example_chain_b64 = Inl ValueError"
    by (simp add: action_certificates_are_valid_def py_b64decode_def decode_failed_def)
  ultimately show ?thesis using chain by simp
qed

text \<open>
  C4. The action that lists the requests of one relation fails with the not-found error
  when the relation id is that of no session, and for a session returns every CSR of
  that relation, each with its certificate if it has one. With the ledger of the spec
  in the place of the library, and where some certificates relation exists (the guard
  of the handler), the handler calls \<open>get_requirer_csrs\<close> once; the not-found error
  leaves the handler as it is raised, and for a session the result is the list of its
  requester units with all their CSRs and answers.
\<close>

theorem get_certificate_request_of_relation:
  assumes lib: "get_requirer_csrs env = listByRequester"
    and created: "certificates_relations (relations st) \<noteq> []"
  shows "on_get_certificate_request_action env st relation_id =
           (st\<lparr>lib_calls := lib_calls st @ [GetRequirerCsrs relation_id]\<rparr>,
            case find_relation (relations st) relation_id of
              None \<Rightarrow> Raised RuntimeError
            | Some r \<Rightarrow> SetResults (units r))
         \<and> (\<forall>r. find_relation (relations st) relation_id = Some r \<longrightarrow>
               r \<in> set (certificates_relations (relations st)) \<and> rel_id r = relation_id)
         \<and> (find_relation (relations st) relation_id = None \<longleftrightarrow>
               relation_id \<notin> rel_id ` set (certificates_relations (relations st)))"
proof -
  from created have guard: "relation_created st (lit ''certificates'') = Inr True"
    by (auto simp: relation_created_eq certificates_relations_def split: option.splits)
  have "on_get_certificate_request_action env st relation_id =
           (st\<lparr>lib_calls := lib_calls st @ [GetRequirerCsrs relation_id]\<rparr>,
            case find_relation (relations st) relation_id of
              None \<Rightarrow> Raised RuntimeError
            | Some r \<Rightarrow> SetResults (units r))"
    using guard lib
    by (simp add: on_get_certificate_request_action_def listByRequester_def Let_def
        split: option.splits)
  moreover have "\<forall>r. find_relation (relations st) relation_id = Some r \<longrightarrow>
      r \<in> set (certificates_relations (relations st)) \<and> rel_id r = relation_id"
    by (auto simp: find_relation_def find_Some_iff)
  moreover have "find_relation (relations st) relation_id = None \<longleftrightarrow>
      relation_id \<notin> rel_id ` set (certificates_relations (relations st))"
    by (auto simp: find_relation_def find_None_iff)
  ultimately show ?thesis by simp
qed

text \<open>
  An instance: relation 7 after the certificate for the example CSR has been provided,
  and relation 8, which does not exist.
\<close>

lemma example_provided:
  "certificates_relations
     (relations (fst (on_provide_certificate_action example_env example_state
        (example_params 7)))) = [provided_relation]"
proof -
  have differ: "lit ''csr-2'' \<noteq> example_csr"
    by (simp add: example_csr_def)
  have "attachCertificate (relations example_state)
          \<lparr>csr_arg = example_csr,
           certificate_arg = example_certificate,
           ca_arg = example_certificate,
           chain_arg = [example_certificate, example_certificate],
           relation_id_arg = 7\<rparr> =
        Inr ((relations example_state)(lit ''certificates'' \<mapsto> [provided_relation]))"
    using differ
    by (simp add: attachCertificate_def example_find_relation example_state_relations
        answer_relation_def answer_entry_def example_relation_def provided_relation_def)
  then show ?thesis
    using provide_certificate_attach
      [of example_state example_env "example_params 7"
        "example_certificate @ 10 # example_certificate @ [10]"
        "example_csr @ [10]" "32 # example_certificate @ [10]"
        "32 # example_certificate @ [10]"]
      example_state_created example_input_valid example_chain_text example_csr_text
      example_certificate_text
    by (simp add: strip_example_certificate strip_example_csr parse_example_chain
        certificates_relations_def)
qed

theorem get_certificate_request_of_relation_witness:
  "snd (on_get_certificate_request_action example_env
          (fst (on_provide_certificate_action example_env example_state (example_params 7)))
          7) = SetResults (units provided_relation)
   \<and> snd (on_get_certificate_request_action example_env
          (fst (on_provide_certificate_action example_env example_state (example_params 7)))
          8) = Raised RuntimeError"
proof -
  define st where
    "st = fst (on_provide_certificate_action example_env example_state (example_params 7))"
  have rels: "certificates_relations (relations st) = [provided_relation]"
    unfolding st_def by (rule example_provided)
  then have found: "find_relation (relations st) 7 = Some provided_relation"
    and missing: "find_relation (relations st) 8 = None"
    by (simp_all add: find_relation_def provided_relation_def)
  from rels have created: "certificates_relations (relations st) \<noteq> []"
    by simp
  have "snd (on_get_certificate_request_action example_env st 7) =
          SetResults (units provided_relation)"
    using get_certificate_request_of_relation [of example_env st 7] created found
    by simp
  moreover have "snd (on_get_certificate_request_action example_env st 8) =
          Raised RuntimeError"
    using get_certificate_request_of_relation [of example_env st 8] created missing
    by simp
  ultimately show ?thesis
    unfolding st_def by simp
qed

text \<open>
  Before any relation is created no relation id is that of a session, and the action
  fails with the message of the guard, not with the not-found error.
\<close>

theorem get_certificate_request_counterexample:
  "find_relation (relations no_relation_state) 7 = None
   \<and> on_get_certificate_request_action example_env no_relation_state 7 =
     (no_relation_state, Fail NO_RELATION_MESSAGE)
   \<and> snd (on_get_certificate_request_action example_env no_relation_state 7) \<noteq>
     Raised RuntimeError"
proof -
  have "find_relation (relations no_relation_state) 7 = None"
    by (simp add: find_relation_def certificates_relations_def no_relation_state_def)
  moreover have "on_get_certificate_request_action example_env no_relation_state 7 =
      (no_relation_state, Fail NO_RELATION_MESSAGE)"
    using no_relation_state_created by (simp add: on_get_certificate_request_action_def)
  ultimately show ?thesis by simp
qed

text \<open>
  C8. Splitting a well-formed chain of n certificates gives n entries, each one a whole
  PEM block with its two delimiter lines, in the order of the blob; a blob with no PEM
  marker gives the empty list.
\<close>

theorem parse_ca_chain_returns_blocks:
  "(well_formed_chain segs trailer \<longrightarrow>
      parse_ca_chain (chain_blob segs trailer) =
        map (\<lambda>(sep, body). BEGIN_CERTIFICATE @ body @ END_CERTIFICATE) segs
      \<and> length (parse_ca_chain (chain_blob segs trailer)) = length segs)
   \<and> (\<not> occurs BEGIN_CERTIFICATE blob \<longrightarrow> parse_ca_chain blob = [])"
proof -
  have "parse_ca_chain (chain_blob segs trailer) =
          map (\<lambda>(sep, body). BEGIN_CERTIFICATE @ body @ END_CERTIFICATE) segs"
    if "well_formed_chain segs trailer"
    using parse_ca_chain_blob [OF that] by (simp add: pem_block_def)
  moreover have "parse_ca_chain blob = []" if "\<not> occurs BEGIN_CERTIFICATE blob"
    using that by (rule parse_ca_chain_no_begin)
  ultimately show ?thesis
    by simp
qed

theorem parse_ca_chain_returns_blocks_witness:
  "parse_ca_chain (example_certificate @ 10 # lit ''junk'' @ example_certificate @ [10]) =
     [example_certificate, example_certificate]
   \<and> parse_ca_chain (lit ''no certificate here'') = []"
proof -
  have wf: "well_formed_chain [([], lit ''\<newline>AA==\<newline>''),
              (10 # lit ''junk'', lit ''\<newline>AA==\<newline>'')] [10]"
    by (simp add: well_formed_chain_def BEGIN_CERTIFICATE_def END_CERTIFICATE_def)
  have none: "\<not> occurs BEGIN_CERTIFICATE (lit ''no certificate here'')"
    by (simp add: BEGIN_CERTIFICATE_def)
  show ?thesis
    using parse_ca_chain_returns_blocks
      [of "[([], lit ''\<newline>AA==\<newline>''),
            (10 # lit ''junk'', lit ''\<newline>AA==\<newline>'')]"
        "[10]" "lit ''no certificate here''"]
      wf none
    by (simp add: example_certificate_def BEGIN_CERTIFICATE_def END_CERTIFICATE_def)
qed

end
